theory Spec2Isabelle
  imports Main
begin

section \<open>Values, exceptions and the observable world\<close>

text \<open>
  The program is \<^verbatim>\<open>src/cfde_client/main.py\<close>: four click commands (\<^verbatim>\<open>run\<close>,
  \<^verbatim>\<open>status\<close>, \<^verbatim>\<open>login\<close>, \<^verbatim>\<open>logout\<close>) around the external \<^verbatim>\<open>CfdeClient\<close>.

  Python values that reach the commands are JSON shaped: what \<^verbatim>\<open>json.load\<close> returns,
  the strings click hands over, \<^verbatim>\<open>None\<close>. \<open>JNull\<close> is \<^verbatim>\<open>None\<close>. A dict is an
  association list with Python's update discipline (an existing key keeps its place, a
  new key goes last). Numbers are integers here: a JSON number with a fraction or an
  exponent is outside the model.
\<close>

datatype json =
    JNull
  | JBool bool
  | JInt int
  | JStr string
  | JList "json list"
  | JObj "(string \<times> json) list"

text \<open>Truth value testing, as \<^verbatim>\<open>not x\<close>, \<^verbatim>\<open>x or y\<close> and \<^verbatim>\<open>if x:\<close> do it.\<close>

fun truthy :: "json \<Rightarrow> bool" where
  "truthy JNull = False"
| "truthy (JBool b) = b"
| "truthy (JInt i) = (i \<noteq> 0)"
| "truthy (JStr s) = (s \<noteq> [])"
| "truthy (JList xs) = (xs \<noteq> [])"
| "truthy (JObj kvs) = (kvs \<noteq> [])"

text \<open>A click option with \<^verbatim>\<open>default=None\<close>: a string, or \<^verbatim>\<open>None\<close>.\<close>

fun opt_str :: "string option \<Rightarrow> json" where
  "opt_str None = JNull"
| "opt_str (Some s) = JStr s"

text \<open>
  An exception raised by the external client: its class name and its \<^verbatim>\<open>args\<close> tuple.
  These are instances of Python's \<^verbatim>\<open>Exception\<close>, the class the commands'
  \<^verbatim>\<open>except Exception\<close> clauses intercept; interpreter signals (\<^verbatim>\<open>KeyboardInterrupt\<close>,
  \<^verbatim>\<open>SystemExit\<close>) are outside the model.
\<close>

datatype ext_exn = Raised (exc_class: string) (exc_args: "json list")

text \<open>The exceptions the commands' own statements raise, and the external ones.\<close>

datatype exn =
    FileNotFoundError string
  | JSONDecodeError string
  | AttributeError
  | UnboundLocalError string
  | KeyError string
  | TypeError
  | EOFError
  | External ext_exn

text \<open>\<^verbatim>\<open>d[k] = v\<close> and \<^verbatim>\<open>d.get(k)\<close> on a dict.\<close>

fun dict_set :: "string \<Rightarrow> json \<Rightarrow> (string \<times> json) list \<Rightarrow> (string \<times> json) list" where
  "dict_set k v [] = [(k, v)]"
| "dict_set k v ((k', v') # kvs) =
     (if k' = k then (k, v) # kvs else (k', v') # dict_set k v kvs)"

definition dict_get :: "string \<Rightarrow> (string \<times> json) list \<Rightarrow> json" where
  "dict_get k kvs = (case map_of kvs k of None \<Rightarrow> JNull | Some v \<Rightarrow> v)"

text \<open>
  \<^verbatim>\<open>x.get(k)\<close> on whatever \<^verbatim>\<open>json.load\<close> returned: only a dict has \<^verbatim>\<open>get\<close>.
  \<^verbatim>\<open>x[k]\<close> with a string key: a missing key is a \<^verbatim>\<open>KeyError\<close>, and no other JSON
  value can be subscripted by a string.
\<close>

fun json_get :: "json \<Rightarrow> string \<Rightarrow> exn + json" where
  "json_get (JObj kvs) k = Inr (dict_get k kvs)"
| "json_get _ k = Inl AttributeError"

fun subscript :: "json \<Rightarrow> string \<Rightarrow> exn + json" where
  "subscript (JObj kvs) k = (case map_of kvs k of None \<Rightarrow> Inl (KeyError k) | Some v \<Rightarrow> Inr v)"
| "subscript _ k = Inl TypeError"

subsection \<open>Strings\<close>

text \<open>
  A character is a code point below 256. \<^verbatim>\<open>str.strip()\<close> removes the characters
  for which \<^verbatim>\<open>str.isspace()\<close> holds: among these code points, 9 to 13, 28 to 32, 133
  (U+0085) and 160 (U+00A0). \<^verbatim>\<open>str.lower()\<close> maps \<^verbatim>\<open>A\<close> to \<^verbatim>\<open>Z\<close> and the
  capital letters 192 to 222 (but not the sign 215) to the letter 32 places further on.
  Then \<^verbatim>\<open>answer.strip().lower() in ["y", "yes"]\<close>.
\<close>

definition is_space :: "char \<Rightarrow> bool" where
  "is_space c =
     (let n = (of_char c :: nat)
      in (9 \<le> n \<and> n \<le> 13) \<or> (28 \<le> n \<and> n \<le> 32) \<or> n = 133 \<or> n = 160)"

definition strip :: "string \<Rightarrow> string" where
  "strip s = rev (dropWhile is_space (rev (dropWhile is_space s)))"

definition lower_char :: "char \<Rightarrow> char" where
  "lower_char c =
     (case map_of (zip ''ABCDEFGHIJKLMNOPQRSTUVWXYZ'' ''abcdefghijklmnopqrstuvwxyz'') c of
        Some l \<Rightarrow> l
      | None \<Rightarrow>
          (let n = (of_char c :: nat)
           in if 192 \<le> n \<and> n \<le> 222 \<and> n \<noteq> 215 then char_of (n + 32) else c))"

definition lower :: "string \<Rightarrow> string" where
  "lower s = map lower_char s"

definition is_yes :: "string \<Rightarrow> bool" where
  "is_yes answer = (lower (strip answer) \<in> set [''y'', ''yes''])"

text \<open>\<^verbatim>\<open>os.path.dirname\<close> and \<^verbatim>\<open>os.path.basename\<close> (posixpath).\<close>

definition basename :: "string \<Rightarrow> string" where
  "basename p = rev (takeWhile (\<lambda>c. c \<noteq> CHR ''/'') (rev p))"

definition dirname :: "string \<Rightarrow> string" where
  "dirname p =
     (let head = rev (dropWhile (\<lambda>c. c \<noteq> CHR ''/'') (rev p))
      in if head \<noteq> [] \<and> list_ex (\<lambda>c. c \<noteq> CHR ''/'') head
         then rev (dropWhile (\<lambda>c. c = CHR ''/'') (rev head))
         else head)"

subsection \<open>Output, calls and files\<close>

text \<open>
  What \<^verbatim>\<open>sys.stdout\<close> is bound to: the stream the process started with, the
  \<^verbatim>\<open>os.devnull\<close> file that \<^verbatim>\<open>logout\<close> opens, or that file after its
  \<^verbatim>\<open>with\<close> block has closed it.
\<close>

datatype out_stream = Console | Devnull | Devnull_closed

text \<open>
  One constructor for each text the commands write, with the values that fill its
  \<^verbatim>\<open>{}\<close> places. By source line: \<open>Loaded_previous_state\<close> 50,
  \<open>No_previous_state_found\<close> 54, \<open>Determining_author_email\<close> 71,
  \<open>Saved_email_mismatch\<close> 78, \<open>Ask_save_instead\<close> 80-81 (the given email, the saved
  one), \<open>Using_saved_email\<close> 86, \<open>No_saved_email_found\<close> 89, \<open>Ask_email\<close> 90,
  \<open>Ask_save_email\<close> 91-92, \<open>Email_will_be_saved\<close> 97-99, \<open>Initializing_Flow\<close> 103,
  \<open>Error_while_starting_Flow\<close> 113 (with \<^verbatim>\<open>repr(e)\<close>), \<open>Error_during_Flow_startup\<close>
  117, \<open>Flow_message\<close> 119, \<open>State_saved_to\<close> 135, \<open>Bag_available\<close> 136-137 (file
  name, Globus link), \<open>Bag_http_download\<close> 138-139, \<open>Flow_not_started\<close> 161,
  \<open>Error_checking_status\<close> 171 (the flow id; \<^verbatim>\<open>repr(e)\<close> or \<^verbatim>\<open>str(e)\<close>),
  \<open>Raw_status\<close> 175 (the result as \<^verbatim>\<open>json.dumps\<close> with sorted keys renders it),
  \<open>Clean_status\<close> 177, \<open>Starting_login_check\<close> 187, \<open>Authenticated\<close> 189,
  \<open>Logging_out\<close> 195, \<open>Logged_out\<close> 225.
\<close>

datatype rendering = Repr exn | Str exn

datatype message =
    Loaded_previous_state
  | No_previous_state_found
  | Determining_author_email
  | Saved_email_mismatch
  | Ask_save_instead json json
  | Using_saved_email json
  | No_saved_email_found
  | Ask_email
  | Ask_save_email json
  | Email_will_be_saved json
  | Initializing_Flow
  | Error_while_starting_Flow exn
  | Error_during_Flow_startup json
  | Flow_message json
  | State_saved_to string
  | Bag_available string string
  | Bag_http_download string
  | Flow_not_started
  | Error_checking_status json rendering
  | Raw_status json
  | Clean_status json
  | Starting_login_check
  | Authenticated
  | Logging_out
  | Logged_out

text \<open>
  The keyword arguments of a \<^verbatim>\<open>CfdeClient(...)\<close> call (\<open>None\<close>: not passed) and the
  arguments of \<^verbatim>\<open>start_deriva_flow\<close>.
\<close>

record client_kwargs =
  kw_no_browser :: "bool option"
  kw_force :: "bool option"
  kw_service_instance :: "json option"

record flow_request =
  req_data_path :: string
  req_author_email :: json
  req_catalog_id :: "string option"
  req_schema :: "string option"
  req_dataset_acls :: json
  req_output_dir :: "string option"
  req_delete_dir :: bool
  req_handle_git_repos :: bool
  req_server :: "string option"
  req_dry_run :: bool
  req_verbose :: bool
  req_force_http :: bool
  req_bag_kwargs :: "(string \<times> json) list"

text \<open>
  The trace of a command: texts written (with the stream \<^verbatim>\<open>sys.stdout\<close> was bound to),
  lines read, calls of the external client, and file operations.
\<close>

datatype event =
    Print out_stream message
  | Prompt out_stream message
  | Read_line string
  | Open_read string
  | Open_write string
  | Dump string json
  | Call_CfdeClient client_kwargs
  | Call_start_deriva_flow flow_request
  | Call_check_status json json
  | Call_logout

fun is_remote_call :: "event \<Rightarrow> bool" where
  "is_remote_call (Call_CfdeClient kw) = True"
| "is_remote_call (Call_start_deriva_flow r) = True"
| "is_remote_call (Call_check_status a b) = True"
| "is_remote_call Call_logout = True"
| "is_remote_call _ = False"

fun is_file_write :: "event \<Rightarrow> bool" where
  "is_file_write (Open_write p) = True"
| "is_file_write (Dump p j) = True"
| "is_file_write _ = False"

text \<open>
  A file holds JSON text of a value, text that \<^verbatim>\<open>json.load\<close> rejects, or nothing at
  all (what \<^verbatim>\<open>open(path, 'w')\<close> leaves before anything is written; \<^verbatim>\<open>json.load\<close>
  rejects that too).
\<close>

datatype file_content = Json_text json | Malformed | Truncated

text \<open>
  The world a command runs in. \<open>history\<close> keeps the successive contents of the file
  system: every operation that changes a file appends the contents it leaves, so the
  states another reader of the files could have met are all there.
\<close>

record world =
  files :: "string \<Rightarrow> file_content option"
  history :: "(string \<Rightarrow> file_content option) list"
  sys_stdin :: "string list"
  sys_stdout :: out_stream
  trace :: "event list"

text \<open>
  The external collaborators, which are not under \<^verbatim>\<open>src/\<close>: the expanded default path
  of the state file, the two \<^verbatim>\<open>CONFIG\<close> entries, and the client. A call of the client
  is modelled by its outcome, which may depend on the arguments and on the world at the
  time of the call; the client's own input and output are not tracked.
\<close>

record environment =
  DEFAULT_STATE_FILE :: string
  EP_URL :: string
  EP_UUID :: string
  CfdeClient :: "client_kwargs \<Rightarrow> world \<Rightarrow> ext_exn option"
  start_deriva_flow :: "client_kwargs \<Rightarrow> flow_request \<Rightarrow> world \<Rightarrow> ext_exn + json"
  check_status :: "client_kwargs \<Rightarrow> json \<Rightarrow> json \<Rightarrow> world \<Rightarrow> ext_exn + json"
  client_logout :: "client_kwargs \<Rightarrow> world \<Rightarrow> ext_exn option"

definition log :: "event \<Rightarrow> world \<Rightarrow> world" where
  "log e w = w\<lparr>trace := trace w @ [e]\<rparr>"

definition say :: "message \<Rightarrow> world \<Rightarrow> world" where
  "say m w = log (Print (sys_stdout w) m) w"

definition say_if :: "bool \<Rightarrow> message \<Rightarrow> world \<Rightarrow> world" where
  "say_if b m w = (if b then say m w else w)"

text \<open>\<^verbatim>\<open>input(prompt)\<close>: the prompt is written, then a line is read; at end of input
  it raises \<^verbatim>\<open>EOFError\<close>.\<close>

definition input_line :: "message \<Rightarrow> world \<Rightarrow> (exn + string) \<times> world" where
  "input_line prompt w =
     (let w1 = log (Prompt (sys_stdout w) prompt) w
      in case sys_stdin w1 of
           [] \<Rightarrow> (Inl EOFError, w1)
         | l # ls \<Rightarrow> (Inr l, log (Read_line l) (w1\<lparr>sys_stdin := ls\<rparr>)))"

text \<open>
  \<^verbatim>\<open>with open(path) as f: x = json.load(f)\<close>: the file may be missing or may not
  parse.
\<close>

definition read_json :: "string \<Rightarrow> world \<Rightarrow> (exn + json) \<times> world" where
  "read_json path w =
     (let w1 = log (Open_read path) w
      in case files w path of
           None \<Rightarrow> (Inl (FileNotFoundError path), w1)
         | Some (Json_text j) \<Rightarrow> (Inr j, w1)
         | Some Malformed \<Rightarrow> (Inl (JSONDecodeError path), w1)
         | Some Truncated \<Rightarrow> (Inl (JSONDecodeError path), w1))"

text \<open>
  \<^verbatim>\<open>open(path, 'w')\<close> creates the file or empties the one that is there;
  \<^verbatim>\<open>json.dump(state, out)\<close> then writes the text of the value.
\<close>

definition set_file :: "string \<Rightarrow> file_content \<Rightarrow> world \<Rightarrow> world" where
  "set_file path c w =
     w\<lparr>files := (files w)(path \<mapsto> c), history := history w @ [(files w)(path \<mapsto> c)]\<rparr>"

definition open_write :: "string \<Rightarrow> world \<Rightarrow> world" where
  "open_write path w = log (Open_write path) (set_file path Truncated w)"

definition json_dump :: "json \<Rightarrow> string \<Rightarrow> world \<Rightarrow> world" where
  "json_dump j path w = log (Dump path j) (set_file path (Json_text j) w)"

section \<open>The run command\<close>

record run_args =
  data_path :: string
  author_email :: "string option"
  catalog :: "string option"
  schema :: "string option"
  acl_file :: "string option"
  output_dir :: "string option"
  delete_dir :: bool
  ignore_git :: bool
  dry_run :: bool
  verbose :: bool
  force_login :: bool
  no_browser :: bool
  server :: "string option"
  force_http :: bool
  bag_kwargs_file :: "string option"
  client_state_file :: "string option"
  service_instance :: "string option"

text \<open>Lines 44-45 (and 150-151 of \<^verbatim>\<open>status\<close>): the state file in use.\<close>

definition state_path :: "environment \<Rightarrow> string option \<Rightarrow> string" where
  "state_path env csf =
     (case csf of None \<Rightarrow> DEFAULT_STATE_FILE env
      | Some p \<Rightarrow> if p = [] then DEFAULT_STATE_FILE env else p)"

text \<open>Lines 46-54: the saved state; a missing file is the empty dict, a file that does
  not parse raises.\<close>

definition load_state :: "bool \<Rightarrow> string \<Rightarrow> world \<Rightarrow> (exn + json) \<times> world" where
  "load_state vb path w =
     (case read_json path w of
        (Inr j, w1) \<Rightarrow> (Inr j, say_if vb Loaded_previous_state w1)
      | (Inl (FileNotFoundError p), w1) \<Rightarrow> (Inr (JObj []), say_if vb No_previous_state_found w1)
      | (Inl e, w1) \<Rightarrow> (Inl e, w1))"

text \<open>Lines 57-67: the optional files; \<open>dflt\<close> is the value when no path is given.\<close>

definition load_optional :: "string option \<Rightarrow> json \<Rightarrow> world \<Rightarrow> (exn + json) \<times> world" where
  "load_optional path dflt w =
     (case path of
        None \<Rightarrow> (Inr dflt, w)
      | Some p \<Rightarrow> if p = [] then (Inr dflt, w) else read_json p w)"

text \<open>
  Lines 76-92: the email in use and \<^verbatim>\<open>save_email\<close>. The variable \<^verbatim>\<open>save_email\<close> is
  assigned in the three branches only: \<open>None\<close> is the unbound variable.
\<close>

definition determine_email ::
  "bool \<Rightarrow> json \<Rightarrow> json \<Rightarrow> world \<Rightarrow> (exn + (json \<times> bool option)) \<times> world" where
  "determine_email vb email state_email w =
     (if email \<noteq> JNull \<and> state_email \<noteq> JNull \<and> state_email \<noteq> email then
        (case input_line (Ask_save_instead email state_email) (say_if vb Saved_email_mismatch w) of
           (Inl e, w1) \<Rightarrow> (Inl e, w1)
         | (Inr answer, w1) \<Rightarrow> (Inr (email, Some (is_yes answer)), w1))
      else if email = JNull \<and> state_email \<noteq> JNull then
        (Inr (state_email, Some False), say (Using_saved_email state_email) w)
      else if email = JNull \<and> state_email = JNull then
        (case input_line Ask_email (say_if vb No_saved_email_found w) of
           (Inl e, w1) \<Rightarrow> (Inl e, w1)
         | (Inr entered, w1) \<Rightarrow>
             (case input_line (Ask_save_email (JStr (strip entered))) w1 of
                (Inl e, w2) \<Rightarrow> (Inl e, w2)
              | (Inr answer, w2) \<Rightarrow> (Inr (JStr (strip entered), Some (is_yes answer)), w2)))
      else (Inr (email, None), w))"

text \<open>What lines 44-99 leave for the rest of the command.\<close>

record prepared =
  p_state_file :: string
  p_loaded :: "(string \<times> json) list"
  p_state :: "(string \<times> json) list"
  p_author_email :: json
  p_save_email :: bool
  p_dataset_acls :: json
  p_bag_kwargs :: json

text \<open>
  Lines 94-99: \<^verbatim>\<open>if save_email:\<close> reads the variable, which raises when it is
  unbound; otherwise the email goes into the in-memory state when it is to be saved.
  \<open>p_loaded\<close> keeps the dict as \<^verbatim>\<open>json.load\<close> returned it, \<open>p_state\<close> is the variable
  \<^verbatim>\<open>state\<close>.
\<close>

definition commit_email ::
  "run_args \<Rightarrow> string \<Rightarrow> (string \<times> json) list \<Rightarrow> json \<Rightarrow> json \<Rightarrow> json \<Rightarrow> bool option \<Rightarrow> world
     \<Rightarrow> (exn + prepared) \<times> world" where
  "commit_email a path st bag acls email save_email w =
     (case save_email of
        None \<Rightarrow> (Inl (UnboundLocalError ''save_email''), w)
      | Some sv \<Rightarrow>
          (Inr \<lparr>p_state_file = path, p_loaded = st,
                p_state = (if sv then dict_set ''author_email'' email st else st),
                p_author_email = email, p_save_email = sv,
                p_dataset_acls = acls, p_bag_kwargs = bag\<rparr>,
           say_if (sv \<and> verbose a) (Email_will_be_saved email) w))"

text \<open>Lines 44-99.\<close>

definition prepare :: "environment \<Rightarrow> run_args \<Rightarrow> world \<Rightarrow> (exn + prepared) \<times> world" where
  "prepare env a w =
     (case load_state (verbose a) (state_path env (client_state_file a)) w of
        (Inl e, w1) \<Rightarrow> (Inl e, w1)
      | (Inr state, w1) \<Rightarrow>
     (case load_optional (bag_kwargs_file a) (JObj []) w1 of
        (Inl e, w2) \<Rightarrow> (Inl e, w2)
      | (Inr bag, w2) \<Rightarrow>
     (case load_optional (acl_file a) JNull w2 of
        (Inl e, w3) \<Rightarrow> (Inl e, w3)
      | (Inr acls, w3) \<Rightarrow>
     (case json_get state ''author_email'' of
        Inl e \<Rightarrow> (Inl e, say_if (verbose a) Determining_author_email w3)
      | Inr state_email \<Rightarrow>
     (case determine_email (verbose a) (opt_str (author_email a)) state_email
             (say_if (verbose a) Determining_author_email w3) of
        (Inl e, w4) \<Rightarrow> (Inl e, w4)
      | (Inr (email, save_email), w4) \<Rightarrow>
          (case state of
             JObj st \<Rightarrow>
               commit_email a (state_path env (client_state_file a)) st bag acls email save_email w4
           | _ \<Rightarrow> (Inl AttributeError, w4)))))))"

text \<open>
  The keyword names line 106-111 pass explicitly: \<^verbatim>\<open>**bag_kwargs\<close> must be a dict and
  must not repeat one of them (\<^verbatim>\<open>TypeError\<close> otherwise, raised inside the
  \<^verbatim>\<open>try\<close>).
\<close>

definition explicit_keywords :: "string list" where
  "explicit_keywords =
     [''catalog_id'', ''schema'', ''dataset_acls'', ''output_dir'', ''delete_dir'',
      ''handle_git_repos'', ''server'', ''dry_run'', ''verbose'', ''force_http'']"

definition run_kwargs :: "run_args \<Rightarrow> client_kwargs" where
  "run_kwargs a =
     \<lparr>kw_no_browser = Some (no_browser a), kw_force = Some (force_login a),
      kw_service_instance = Some (opt_str (service_instance a))\<rparr>"

definition request :: "run_args \<Rightarrow> prepared \<Rightarrow> (string \<times> json) list \<Rightarrow> flow_request" where
  "request a p kvs =
     \<lparr>req_data_path = data_path a, req_author_email = p_author_email p,
      req_catalog_id = catalog a, req_schema = schema a,
      req_dataset_acls = p_dataset_acls p, req_output_dir = output_dir a,
      req_delete_dir = delete_dir a, req_handle_git_repos = (\<not> ignore_git a),
      req_server = server a, req_dry_run = dry_run a, req_verbose = verbose a,
      req_force_http = force_http a, req_bag_kwargs = kvs\<rparr>"

text \<open>
  Lines 101-111, the body of the \<^verbatim>\<open>try\<close>: \<open>Inl\<close> is the exception that the
  \<^verbatim>\<open>except Exception\<close> clause receives, \<open>Inr\<close> is \<^verbatim>\<open>start_res\<close>.
\<close>

definition start_flow ::
  "environment \<Rightarrow> run_args \<Rightarrow> prepared \<Rightarrow> world \<Rightarrow> (exn + json) \<times> world" where
  "start_flow env a p w =
     (let w1 = say_if (verbose a) Initializing_Flow w;
          w2 = log (Call_CfdeClient (run_kwargs a)) w1
      in case CfdeClient env (run_kwargs a) w1 of
           Some e \<Rightarrow> (Inl (External e), w2)
         | None \<Rightarrow>
             (case p_bag_kwargs p of
                JObj kvs \<Rightarrow>
                  if list_ex (\<lambda>k. k \<in> set explicit_keywords) (map fst kvs)
                  then (Inl TypeError, w2)
                  else (case start_deriva_flow env (run_kwargs a) (request a p kvs) w2 of
                          Inl e \<Rightarrow> (Inl (External e), log (Call_start_deriva_flow (request a p kvs)) w2)
                        | Inr r \<Rightarrow> (Inr r, log (Call_start_deriva_flow (request a p kvs)) w2))
              | _ \<Rightarrow> (Inl TypeError, w2)))"

text \<open>
  Lines 127-133: the five fields set after a successful submission that is not a dry
  run, then the write.
\<close>

definition flow_fields ::
  "json \<Rightarrow> json \<Rightarrow> json \<Rightarrow> string \<Rightarrow> string \<Rightarrow> (string \<times> json) list \<Rightarrow> (string \<times> json) list" where
  "flow_fields si fid fiid http_link globus_web_link st =
     dict_set ''globus_web_link'' (JStr globus_web_link)
       (dict_set ''http_link'' (JStr http_link)
         (dict_set ''flow_instance_id'' fiid
           (dict_set ''flow_id'' fid
             (dict_set ''service_instance'' si st))))"

definition write_state :: "string \<Rightarrow> json \<Rightarrow> world \<Rightarrow> world" where
  "write_state path state w = json_dump state path (open_write path w)"

definition globus_link :: "environment \<Rightarrow> string \<Rightarrow> string" where
  "globus_link env dir_path =
     ''https://app.globus.org/file-manager?origin_id='' @ EP_UUID env @ ''&origin_path='' @ dir_path"

text \<open>The variable \<^verbatim>\<open>state\<close> after lines 121-131.\<close>

definition updated_state ::
  "environment \<Rightarrow> run_args \<Rightarrow> prepared \<Rightarrow> string \<Rightarrow> json \<Rightarrow> json \<Rightarrow> (string \<times> json) list" where
  "updated_state env a p dest_path fid fiid =
     flow_fields (opt_str (service_instance a)) fid fiid
       (EP_URL env @ dest_path) (globus_link env (dirname dest_path)) (p_state p)"

text \<open>Lines 121-139.\<close>

definition persist ::
  "environment \<Rightarrow> run_args \<Rightarrow> prepared \<Rightarrow> json \<Rightarrow> world \<Rightarrow> exn option \<times> world" where
  "persist env a p start_res w =
     (case subscript start_res ''fair_re_dest_path'' of
        Inl e \<Rightarrow> (Some e, w)
      | Inr (JStr dest_path) \<Rightarrow>
          (case subscript start_res ''flow_id'' of
             Inl e \<Rightarrow> (Some e, w)
           | Inr fid \<Rightarrow>
          (case subscript start_res ''flow_instance_id'' of
             Inl e \<Rightarrow> (Some e, w)
           | Inr fiid \<Rightarrow>
               (None,
                say (Bag_http_download (EP_URL env @ dest_path))
                  (say (Bag_available (basename dest_path) (globus_link env (dirname dest_path)))
                    (say_if (verbose a) (State_saved_to (p_state_file p))
                      (write_state (p_state_file p)
                         (JObj (updated_state env a p dest_path fid fiid)) w))))))
      | Inr _ \<Rightarrow> (Some TypeError, w))"

text \<open>Lines 115-139, the \<^verbatim>\<open>else\<close> of the \<^verbatim>\<open>try\<close>.\<close>

definition conclude ::
  "environment \<Rightarrow> run_args \<Rightarrow> prepared \<Rightarrow> json \<Rightarrow> world \<Rightarrow> exn option \<times> world" where
  "conclude env a p start_res w =
     (case subscript start_res ''success'' of
        Inl e \<Rightarrow> (Some e, w)
      | Inr ok \<Rightarrow>
          if truthy ok then
            (case subscript start_res ''message'' of
               Inl e \<Rightarrow> (Some e, w)
             | Inr m \<Rightarrow>
                 if dry_run a then (None, say (Flow_message m) w)
                 else persist env a p start_res (say (Flow_message m) w))
          else
            (case subscript start_res ''error'' of
               Inl e \<Rightarrow> (Some e, w)
             | Inr err \<Rightarrow> (None, say (Error_during_Flow_startup err) w)))"

text \<open>
  The command: \<open>None\<close> when it returns, \<open>Some e\<close> when the exception \<open>e\<close> leaves it.
\<close>

definition run :: "environment \<Rightarrow> run_args \<Rightarrow> world \<Rightarrow> exn option \<times> world" where
  "run env a w =
     (case prepare env a w of
        (Inl e, w1) \<Rightarrow> (Some e, w1)
      | (Inr p, w1) \<Rightarrow>
          (case start_flow env a p w1 of
             (Inl e, w2) \<Rightarrow> (None, say (Error_while_starting_Flow e) w2)
           | (Inr start_res, w2) \<Rightarrow> conclude env a p start_res w2))"

section \<open>The status command\<close>

text \<open>
  Lines 149-162. \<open>No_flow\<close>: the message of line 161 was written and the command
  returned. \<open>Resolved\<close>: the two identifiers and the variable \<^verbatim>\<open>service_instance\<close>,
  which is assigned on line 157 only (\<open>None\<close>: unbound). \<^verbatim>\<open>JSONDecodeError\<close> is a
  \<^verbatim>\<open>ValueError\<close>, so the \<^verbatim>\<open>except\<close> clause of line 160 takes a file that does not
  parse as well; the \<^verbatim>\<open>AttributeError\<close> of a state that is no dict passes through it.
\<close>

datatype resolution = No_flow | Resolved json json "json option"

definition py_or :: "json \<Rightarrow> exn + json \<Rightarrow> exn + json" where
  "py_or x y = (if truthy x then Inr x else y)"

definition resolve_flow ::
  "environment \<Rightarrow> string option \<Rightarrow> string option \<Rightarrow> string option \<Rightarrow> world
     \<Rightarrow> (exn + resolution) \<times> world" where
  "resolve_flow env flow_id flow_instance_id csf w =
     (if truthy (opt_str flow_id) \<and> truthy (opt_str flow_instance_id)
      then (Inr (Resolved (opt_str flow_id) (opt_str flow_instance_id) None), w)
      else
        (case read_json (state_path env csf) w of
           (Inl e, w1) \<Rightarrow> (Inr No_flow, say Flow_not_started w1)
         | (Inr client_state, w1) \<Rightarrow>
        (case py_or (opt_str flow_id) (json_get client_state ''flow_id'') of
           Inl e \<Rightarrow> (Inl e, w1)
         | Inr fid \<Rightarrow>
        (case py_or (opt_str flow_instance_id) (json_get client_state ''flow_instance_id'') of
           Inl e \<Rightarrow> (Inl e, w1)
         | Inr fiid \<Rightarrow>
        (case json_get client_state ''service_instance'' of
           Inl e \<Rightarrow> (Inl e, w1)
         | Inr si \<Rightarrow>
             if truthy fid \<and> truthy fiid
             then (Inr (Resolved fid fiid (Some si)), w1)
             else (Inr No_flow, say Flow_not_started w1))))))"

definition status_kwargs :: "json \<Rightarrow> client_kwargs" where
  "status_kwargs si = \<lparr>kw_no_browser = None, kw_force = None, kw_service_instance = Some si\<rparr>"

text \<open>
  Lines 163-165, the body of the second \<^verbatim>\<open>try\<close>: reading the unbound
  \<^verbatim>\<open>service_instance\<close> raises before any call is made.
\<close>

definition query_status ::
  "environment \<Rightarrow> json \<Rightarrow> json \<Rightarrow> json option \<Rightarrow> world \<Rightarrow> (exn + json) \<times> world" where
  "query_status env fid fiid service_inst w =
     (case service_inst of
        None \<Rightarrow> (Inl (UnboundLocalError ''service_instance''), w)
      | Some si \<Rightarrow>
          (case CfdeClient env (status_kwargs si) w of
             Some e \<Rightarrow> (Inl (External e), log (Call_CfdeClient (status_kwargs si)) w)
           | None \<Rightarrow>
               (case check_status env (status_kwargs si) fid fiid
                       (log (Call_CfdeClient (status_kwargs si)) w) of
                  Inl e \<Rightarrow>
                    (Inl (External e),
                     log (Call_check_status fid fiid) (log (Call_CfdeClient (status_kwargs si)) w))
                | Inr r \<Rightarrow>
                    (Inr r,
                     log (Call_check_status fid fiid) (log (Call_CfdeClient (status_kwargs si)) w)))))"

text \<open>Lines 166-177.\<close>

definition present ::
  "bool \<Rightarrow> json \<Rightarrow> (exn + json) \<times> world \<Rightarrow> exn option \<times> world" where
  "present raw fid r =
     (case r of
        (Inl e, w) \<Rightarrow> (None, say (Error_checking_status fid (if raw then Repr e else Str e)) w)
      | (Inr status_res, w) \<Rightarrow>
          if raw then (None, say (Raw_status status_res) w)
          else (case subscript status_res ''clean_status'' of
                  Inl e \<Rightarrow> (Some e, w)
                | Inr c \<Rightarrow> (None, say (Clean_status c) w)))"

definition status ::
  "environment \<Rightarrow> string option \<Rightarrow> string option \<Rightarrow> bool \<Rightarrow> string option \<Rightarrow> world
     \<Rightarrow> exn option \<times> world" where
  "status env flow_id flow_instance_id raw csf w =
     (case resolve_flow env flow_id flow_instance_id csf w of
        (Inl e, w1) \<Rightarrow> (Some e, w1)
      | (Inr No_flow, w1) \<Rightarrow> (None, w1)
      | (Inr (Resolved fid fiid si), w1) \<Rightarrow> present raw fid (query_status env fid fiid si w1))"

section \<open>The login and logout commands\<close>

definition login_kwargs :: "bool \<Rightarrow> bool \<Rightarrow> client_kwargs" where
  "login_kwargs force no_brow =
     \<lparr>kw_no_browser = Some no_brow, kw_force = Some force, kw_service_instance = None\<rparr>"

definition login :: "environment \<Rightarrow> bool \<Rightarrow> bool \<Rightarrow> world \<Rightarrow> exn option \<times> world" where
  "login env force no_brow w =
     (case CfdeClient env (login_kwargs force no_brow) (say Starting_login_check w) of
        Some e \<Rightarrow>
          (Some (External e),
           log (Call_CfdeClient (login_kwargs force no_brow)) (say Starting_login_check w))
      | None \<Rightarrow>
          (None,
           say Authenticated
             (log (Call_CfdeClient (login_kwargs force no_brow)) (say Starting_login_check w))))"

definition logout_kwargs :: client_kwargs where
  "logout_kwargs = \<lparr>kw_no_browser = Some True, kw_force = None, kw_service_instance = None\<rparr>"


text \<open>
  Lines 202-211: \<^verbatim>\<open>sys.stdin\<close> becomes a \<^verbatim>\<open>StringIO("\n")\<close> (one empty line),
  \<^verbatim>\<open>sys.stdout\<close> the opened \<^verbatim>\<open>os.devnull\<close>; the client is constructed; leaving the
  \<^verbatim>\<open>with\<close> block closes the file, whether the construction raised or not.
\<close>

definition probe_world :: "world \<Rightarrow> world" where
  "probe_world w = w\<lparr>sys_stdin := [[]], sys_stdout := Devnull\<rparr>"

definition probe :: "environment \<Rightarrow> world \<Rightarrow> ext_exn option \<times> world" where
  "probe env w =
     (CfdeClient env logout_kwargs (probe_world w),
      (log (Call_CfdeClient logout_kwargs) (probe_world w))\<lparr>sys_stdout := Devnull_closed\<rparr>)"


text \<open>
  Lines 214-224: the \<^verbatim>\<open>except\<close> clause absorbs an invalid grant and raises anything
  else again; the \<^verbatim>\<open>finally\<close> clause rebinds both streams to the objects saved on
  lines 202 and 208.
\<close>

definition restore :: "world \<Rightarrow> world \<Rightarrow> world" where
  "restore w0 w = w\<lparr>sys_stdout := sys_stdout w0, sys_stdin := sys_stdin w0\<rparr>"



section \<open>Notions used in the statements\<close>

text \<open>File operations in a trace, and the optional files a run reads (lines 57-67).\<close>

fun is_file_event :: "event \<Rightarrow> bool" where
  "is_file_event (Open_read p) = True"
| "is_file_event (Open_write p) = True"
| "is_file_event (Dump p j) = True"
| "is_file_event _ = False"

definition optional_paths :: "run_args \<Rightarrow> string list" where
  "optional_paths a =
     (case bag_kwargs_file a of None \<Rightarrow> [] | Some p \<Rightarrow> if p = [] then [] else [p]) @
     (case acl_file a of None \<Rightarrow> [] | Some p \<Rightarrow> if p = [] then [] else [p])"

text \<open>A record with the fields of \<open>ov\<close> overwritten, one after the other.\<close>

definition overwrite :: "(string \<times> json) list \<Rightarrow> (string \<times> json) list \<Rightarrow> (string \<times> json) list" where
  "overwrite ov st = fold (\<lambda>kv. dict_set (fst kv) (snd kv)) ov st"

definition state_fields :: "string list" where
  "state_fields =
     [''author_email'', ''service_instance'', ''flow_id'', ''flow_instance_id'',
      ''http_link'', ''globus_web_link'']"

text \<open>
  The identifier \<^verbatim>\<open>status\<close> is to use, in the words of the specification: the value
  the caller gave when one was given, the saved one otherwise.
\<close>

definition fallback :: "string option \<Rightarrow> string \<Rightarrow> (string \<times> json) list \<Rightarrow> json" where
  "fallback given k st = (if truthy (opt_str given) then opt_str given else dict_get k st)"

text \<open>
  The fields a successful run that is not a dry run sets, in the order of lines 95 and
  127-131: the email only when it is to be saved.
\<close>

definition run_overrides ::
  "environment \<Rightarrow> run_args \<Rightarrow> prepared \<Rightarrow> string \<Rightarrow> json \<Rightarrow> json \<Rightarrow> (string \<times> json) list" where
  "run_overrides env a p dest fid fiid =
     (if p_save_email p then [(''author_email'', p_author_email p)] else []) @
     [(''service_instance'', opt_str (service_instance a)), (''flow_id'', fid),
      (''flow_instance_id'', fiid), (''http_link'', JStr (EP_URL env @ dest)),
      (''globus_web_link'', JStr (globus_link env (dirname dest)))]"

text \<open>
  A result of the submission as section 6 of the specification describes a success that
  is not a dry run: \<^verbatim>\<open>success\<close> is true and the message, the destination path and the
  two identifiers are there.
\<close>

definition succeeded :: "json \<Rightarrow> json \<Rightarrow> string \<Rightarrow> json \<Rightarrow> json \<Rightarrow> bool" where
  "succeeded res m dest fid fiid =
     ((case subscript res ''success'' of Inl e \<Rightarrow> False | Inr ok \<Rightarrow> truthy ok) \<and>
      subscript res ''message'' = Inr m \<and>
      subscript res ''fair_re_dest_path'' = Inr (JStr dest) \<and>
      subscript res ''flow_id'' = Inr fid \<and>
      subscript res ''flow_instance_id'' = Inr fiid)"

subsection \<open>Concrete inputs\<close>

definition example_env :: environment where
  "example_env =
     \<lparr>DEFAULT_STATE_FILE = ''/home/u/.cfde_client.json'', EP_URL = ''https://ep.example'',
      EP_UUID = ''ep-uuid'',
      CfdeClient = (\<lambda>kw w. None),
      start_deriva_flow = (\<lambda>kw r w.
         Inr (JObj [(''success'', JBool True), (''message'', JStr ''started''),
                    (''fair_re_dest_path'', JStr ''/public/bag.zip''),
                    (''flow_id'', JStr ''F9''), (''flow_instance_id'', JStr ''I9'')])),
      check_status = (\<lambda>kw f i w. Inr (JObj [(''clean_status'', JStr ''ACTIVE'')])),
      client_logout = (\<lambda>kw w. None)\<rparr>"

definition example_args :: run_args where
  "example_args =
     \<lparr>data_path = ''data'', author_email = None, catalog = None, schema = None, acl_file = None,
      output_dir = None, delete_dir = False, ignore_git = False, dry_run = False, verbose = False,
      force_login = False, no_browser = False, server = None, force_http = False,
      bag_kwargs_file = None, client_state_file = None, service_instance = None\<rparr>"

text \<open>No state file; the user will type an email and then \<^verbatim>\<open>Yes\<close>.\<close>

definition fresh_world :: world where
  "fresh_world =
     \<lparr>files = Map.empty, history = [], sys_stdin = [''me@x.org '', ''Yes''], sys_stdout = Console, trace = []\<rparr>"

text \<open>A state file left by an earlier run, with a field the commands do not know.\<close>

definition saved_state :: "(string \<times> json) list" where
  "saved_state =
     [(''author_email'', JStr ''old@x.org''), (''service_instance'', JStr ''dev''),
      (''flow_id'', JStr ''F2''), (''flow_instance_id'', JStr ''I2''), (''extra'', JInt 7)]"

definition saved_world :: world where
  "saved_world =
     \<lparr>files = [''/home/u/.cfde_client.json'' \<mapsto> Json_text (JObj saved_state)],
      history = [], sys_stdin = [''y''], sys_stdout = Console, trace = []\<rparr>"

text \<open>A state file that holds an email and no flow.\<close>

definition emailed_world :: world where
  "emailed_world =
     \<lparr>files = [''/home/u/.cfde_client.json'' \<mapsto> Json_text (JObj [(''author_email'', JStr ''old@x.org'')])],
      history = [], sys_stdin = [], sys_stdout = Console, trace = []\<rparr>"

text \<open>A state file that is empty, as an interrupted write leaves it.\<close>

definition emptied_world :: world where
  "emptied_world =
     \<lparr>files = [''/home/u/.cfde_client.json'' \<mapsto> Truncated],
      history = [], sys_stdin = [], sys_stdout = Console, trace = []\<rparr>"

text \<open>A state file that does not parse.\<close>

definition broken_world :: world where
  "broken_world =
     \<lparr>files = [''/home/u/.cfde_client.json'' \<mapsto> Malformed],
      history = [], sys_stdin = [], sys_stdout = Console, trace = []\<rparr>"

text \<open>
  Exceptions of the client: one whose third argument is \<^verbatim>\<open>"invalid_grant"\<close>, and one
  of another kind.
\<close>

definition grant_error :: ext_exn where
  "grant_error = Raised ''AuthAPIError'' [JInt 400, JStr ''Error'', JStr ''invalid_grant'']"

definition timeout_error :: ext_exn where
  "timeout_error = Raised ''ConnectionError'' [JStr ''timeout'']"

text \<open>
  Environments in which the submission is refused, in which it raises, and in which the
  client cannot be constructed.
\<close>

definition refusal :: json where
  "refusal = JObj [(''success'', JBool False), (''error'', JStr ''bad catalog'')]"

definition refusing_env :: environment where
  "refusing_env = example_env\<lparr>start_deriva_flow := \<lambda>kw r w. Inr refusal\<rparr>"

definition failing_env :: environment where
  "failing_env = example_env\<lparr>start_deriva_flow := \<lambda>kw r w. Inl timeout_error\<rparr>"

definition offline_env :: environment where
  "offline_env = example_env\<lparr>CfdeClient := \<lambda>kw w. Some timeout_error\<rparr>"

definition expired_env :: environment where
  "expired_env = example_env\<lparr>CfdeClient := \<lambda>kw w. Some grant_error\<rparr>"

text \<open>What lines 44-99 leave when the state file of \<open>saved_world\<close> is loaded.\<close>

definition saved_prepared :: prepared where
  "saved_prepared =
     \<lparr>p_state_file = ''/home/u/.cfde_client.json'', p_loaded = saved_state, p_state = saved_state,
      p_author_email = JStr ''old@x.org'', p_save_email = False, p_dataset_acls = JNull,
      p_bag_kwargs = JObj []\<rparr>"

text \<open>The same for \<open>fresh_world\<close>, where the email is typed in and is to be saved.\<close>

definition fresh_prepared :: prepared where
  "fresh_prepared =
     \<lparr>p_state_file = ''/home/u/.cfde_client.json'', p_loaded = [],
      p_state = [(''author_email'', JStr ''me@x.org'')],
      p_author_email = JStr ''me@x.org'', p_save_email = True, p_dataset_acls = JNull,
      p_bag_kwargs = JObj []\<rparr>"

text \<open>The records the state file holds after a successful run from each world.\<close>

definition fresh_after :: "(string \<times> json) list" where
  "fresh_after =
     [(''author_email'', JStr ''me@x.org''), (''service_instance'', JNull),
      (''flow_id'', JStr ''F9''), (''flow_instance_id'', JStr ''I9''),
      (''http_link'', JStr ''https://ep.example/public/bag.zip''),
      (''globus_web_link'',
       JStr ''https://app.globus.org/file-manager?origin_id=ep-uuid&origin_path=/public'')]"

definition saved_after :: "(string \<times> json) list" where
  "saved_after =
     [(''author_email'', JStr ''old@x.org''), (''service_instance'', JNull),
      (''flow_id'', JStr ''F9''), (''flow_instance_id'', JStr ''I9''), (''extra'', JInt 7),
      (''http_link'', JStr ''https://ep.example/public/bag.zip''),
      (''globus_web_link'',
       JStr ''https://app.globus.org/file-manager?origin_id=ep-uuid&origin_path=/public'')]"

definition dry_args :: run_args where
  "dry_args = example_args\<lparr>dry_run := True\<rparr>"

text \<open>The result the client of \<open>example_env\<close> returns.\<close>

definition started :: json where
  "started =
     JObj [(''success'', JBool True), (''message'', JStr ''started''),
           (''fair_re_dest_path'', JStr ''/public/bag.zip''),
           (''flow_id'', JStr ''F9''), (''flow_instance_id'', JStr ''I9'')]"

section \<open>Evaluation on concrete inputs\<close>

lemmas ex_defs = example_env_def example_args_def fresh_world_def saved_world_def broken_world_def
  emailed_world_def emptied_world_def
  saved_state_def refusal_def refusing_env_def timeout_error_def grant_error_def failing_env_def
  offline_env_def expired_env_def saved_prepared_def
lemmas run_defs = run_def prepare_def load_state_def read_json_def state_path_def load_optional_def
  determine_email_def commit_email_def input_line_def start_flow_def conclude_def persist_def
  run_kwargs_def request_def explicit_keywords_def updated_state_def flow_fields_def globus_link_def
  dict_get_def
lemmas eval_defs = ex_defs run_defs fresh_prepared_def fresh_after_def saved_after_def dry_args_def
  Let_def strip_def is_space_def is_yes_def lower_def lower_char_def dirname_def basename_def

section \<open>Frame lemmas: what each step leaves alone\<close>

lemma log_simps [simp]:
  "files (log e w) = files w" "history (log e w) = history w"
  "sys_stdin (log e w) = sys_stdin w"
  "sys_stdout (log e w) = sys_stdout w" "trace (log e w) = trace w @ [e]"
  by (simp_all add: log_def)

lemma say_simps [simp]:
  "files (say m w) = files w" "history (say m w) = history w"
  "sys_stdin (say m w) = sys_stdin w"
  "sys_stdout (say m w) = sys_stdout w" "trace (say m w) = trace w @ [Print (sys_stdout w) m]"
  by (simp_all add: say_def)

lemma say_if_simps [simp]:
  "files (say_if b m w) = files w" "history (say_if b m w) = history w"
  "sys_stdin (say_if b m w) = sys_stdin w"
  "sys_stdout (say_if b m w) = sys_stdout w"
  "trace (say_if b m w) = trace w @ (if b then [Print (sys_stdout w) m] else [])"
  by (simp_all add: say_if_def)

lemma map_of_dict_set: "map_of (dict_set k v kvs) = (map_of kvs)(k \<mapsto> v)"
  by (induction kvs) auto

lemma dict_get_dict_set: "dict_get k' (dict_set k v kvs) = (if k' = k then v else dict_get k' kvs)"
  by (simp add: dict_get_def map_of_dict_set)

lemma read_json_frame [simp]:
  "files (snd (read_json p w)) = files w" "sys_stdout (snd (read_json p w)) = sys_stdout w"
  "history (snd (read_json p w)) = history w"
  "sys_stdin (snd (read_json p w)) = sys_stdin w"
  "trace (snd (read_json p w)) = trace w @ [Open_read p]"
  by (simp_all add: read_json_def Let_def split: option.splits file_content.splits)

lemma read_json_result:
  "fst (read_json p w) =
     (case files w p of None \<Rightarrow> Inl (FileNotFoundError p) | Some (Json_text j) \<Rightarrow> Inr j
      | Some Malformed \<Rightarrow> Inl (JSONDecodeError p) | Some Truncated \<Rightarrow> Inl (JSONDecodeError p))"
  by (simp add: read_json_def Let_def split: option.splits file_content.splits)

lemma load_state_frame [simp]:
  "files (snd (load_state vb p w)) = files w"
  "history (snd (load_state vb p w)) = history w"
  "sys_stdout (snd (load_state vb p w)) = sys_stdout w"
  "sys_stdin (snd (load_state vb p w)) = sys_stdin w"
  "filter is_file_event (trace (snd (load_state vb p w))) = filter is_file_event (trace w) @ [Open_read p]"
  "filter is_file_write (trace (snd (load_state vb p w))) = filter is_file_write (trace w)"
  "filter is_remote_call (trace (snd (load_state vb p w))) = filter is_remote_call (trace w)"
  by (simp_all add: load_state_def case_prod_beta split: sum.splits exn.splits)

lemma load_optional_frame [simp]:
  "files (snd (load_optional po d w)) = files w"
  "history (snd (load_optional po d w)) = history w"
  "sys_stdout (snd (load_optional po d w)) = sys_stdout w"
  "sys_stdin (snd (load_optional po d w)) = sys_stdin w"
  "filter is_file_write (trace (snd (load_optional po d w))) = filter is_file_write (trace w)"
  "filter is_remote_call (trace (snd (load_optional po d w))) = filter is_remote_call (trace w)"
  by (simp_all add: load_optional_def split: option.splits)

lemma input_line_frame [simp]:
  "files (snd (input_line m w)) = files w"
  "history (snd (input_line m w)) = history w"
  "sys_stdout (snd (input_line m w)) = sys_stdout w"
  "filter is_file_event (trace (snd (input_line m w))) = filter is_file_event (trace w)"
  "filter is_file_write (trace (snd (input_line m w))) = filter is_file_write (trace w)"
  "filter is_remote_call (trace (snd (input_line m w))) = filter is_remote_call (trace w)"
  by (simp_all add: input_line_def Let_def split: list.splits)

lemma determine_email_frame [simp]:
  "files (snd (determine_email vb e se w)) = files w"
  "history (snd (determine_email vb e se w)) = history w"
  "sys_stdout (snd (determine_email vb e se w)) = sys_stdout w"
  "filter is_file_event (trace (snd (determine_email vb e se w))) = filter is_file_event (trace w)"
  "filter is_file_write (trace (snd (determine_email vb e se w))) = filter is_file_write (trace w)"
  "filter is_remote_call (trace (snd (determine_email vb e se w))) = filter is_remote_call (trace w)"
  by (simp_all add: determine_email_def case_prod_beta split: sum.splits)

lemma commit_email_frame [simp]:
  "files (snd (commit_email a p st bag acls e sv w)) = files w"
  "history (snd (commit_email a p st bag acls e sv w)) = history w"
  "sys_stdout (snd (commit_email a p st bag acls e sv w)) = sys_stdout w"
  "filter is_file_event (trace (snd (commit_email a p st bag acls e sv w))) = filter is_file_event (trace w)"
  "filter is_file_write (trace (snd (commit_email a p st bag acls e sv w))) = filter is_file_write (trace w)"
  "filter is_remote_call (trace (snd (commit_email a p st bag acls e sv w))) = filter is_remote_call (trace w)"
  by (simp_all add: commit_email_def split: option.splits)

lemma file_write_is_event: "filter is_file_write (filter is_file_event xs) = filter is_file_write xs"
  by (induction xs) (auto elim: is_file_write.elims)

lemma prepare_frame [simp]:
  "files (snd (prepare env a w)) = files w"
  "history (snd (prepare env a w)) = history w"
  "sys_stdout (snd (prepare env a w)) = sys_stdout w"
  "filter is_file_write (trace (snd (prepare env a w))) = filter is_file_write (trace w)"
  "filter is_remote_call (trace (snd (prepare env a w))) = filter is_remote_call (trace w)"
  by (simp_all add: prepare_def case_prod_beta split: sum.splits json.splits)


lemma load_state_result:
  "fst (load_state vb p w) =
     (case files w p of None \<Rightarrow> Inr (JObj []) | Some (Json_text j) \<Rightarrow> Inr j
      | Some Malformed \<Rightarrow> Inl (JSONDecodeError p) | Some Truncated \<Rightarrow> Inl (JSONDecodeError p))"
  by (simp add: load_state_def read_json_def Let_def split: option.splits file_content.splits)

lemma commit_email_result:
  "fst (commit_email a path st bag acls email sv w) = Inr p \<Longrightarrow>
     p_state_file p = path \<and> p_loaded p = st \<and> sv = Some (p_save_email p) \<and>
     p_author_email p = email \<and>
     p_state p = (if p_save_email p then dict_set ''author_email'' email st else st)"
  by (auto simp: commit_email_def split: option.splits)

lemma prepare_result:
  assumes "fst (prepare env a w) = Inr p"
  shows "p_state_file p = state_path env (client_state_file a)"
    and "fst (load_state vb (p_state_file p) w) = Inr (JObj (p_loaded p))"
    and "p_state p =
           (if p_save_email p then dict_set ''author_email'' (p_author_email p) (p_loaded p)
            else p_loaded p)"
proof -
  from assms obtain st bag acls email sv w4 where
    ld: "fst (load_state (verbose a) (state_path env (client_state_file a)) w) = Inr (JObj st)"
    and ce: "fst (commit_email a (state_path env (client_state_file a)) st bag acls email sv w4) = Inr p"
    by (auto simp: prepare_def case_prod_beta split: sum.splits json.splits)
  from commit_email_result[OF ce] show "p_state_file p = state_path env (client_state_file a)"
    by simp
  from commit_email_result[OF ce] ld show "fst (load_state vb (p_state_file p) w) = Inr (JObj (p_loaded p))"
    by (simp add: load_state_result)
  from commit_email_result[OF ce] show "p_state p =
           (if p_save_email p then dict_set ''author_email'' (p_author_email p) (p_loaded p)
            else p_loaded p)"
    by simp
qed

lemma start_flow_frame [simp]:
  "files (snd (start_flow env a p w)) = files w"
  "history (snd (start_flow env a p w)) = history w"
  "sys_stdout (snd (start_flow env a p w)) = sys_stdout w"
  "filter is_file_event (trace (snd (start_flow env a p w))) = filter is_file_event (trace w)"
  "filter is_file_write (trace (snd (start_flow env a p w))) = filter is_file_write (trace w)"
  by (simp_all add: start_flow_def Let_def split: option.splits json.splits sum.splits)

lemma write_state_simps [simp]:
  "files (write_state path j w) = (files w)(path \<mapsto> Json_text j)"
  "history (write_state path j w) =
     history w @ [(files w)(path \<mapsto> Truncated), (files w)(path \<mapsto> Json_text j)]"
  "sys_stdout (write_state path j w) = sys_stdout w"
  "trace (write_state path j w) = trace w @ [Open_write path, Dump path j]"
  by (simp_all add: write_state_def json_dump_def open_write_def set_file_def)

lemma conclude_dry_run:
  "dry_run a \<Longrightarrow> files (snd (conclude env a p res w)) = files w"
  "dry_run a \<Longrightarrow> filter is_file_write (trace (snd (conclude env a p res w))) = filter is_file_write (trace w)"
  by (simp_all add: conclude_def split: sum.splits)

lemma conclude_failure:
  "subscript res ''success'' = Inr ok \<Longrightarrow> \<not> truthy ok \<Longrightarrow>
     files (snd (conclude env a p res w)) = files w"
  by (simp_all add: conclude_def split: sum.splits)


section \<open>What a run writes\<close>

lemma load_optional_events:
  "filter is_file_event (trace (snd (load_optional po d w))) =
     filter is_file_event (trace w) @
       (case po of None \<Rightarrow> [] | Some p \<Rightarrow> if p = [] then [] else [Open_read p])"
  by (simp add: load_optional_def split: option.splits)

lemma prepare_events:
  assumes "fst (prepare env a w) = Inr p"
  shows "filter is_file_event (trace (snd (prepare env a w))) =
           filter is_file_event (trace w) @
             map Open_read (state_path env (client_state_file a) # optional_paths a)"
  using assms
  by (simp add: prepare_def case_prod_beta load_optional_events optional_paths_def
        split: sum.splits json.splits option.splits)

lemma persist_cases:
  "persist env a p res w = (r, w') \<Longrightarrow>
     (files w' = files w \<and> filter is_file_event (trace w') = filter is_file_event (trace w)) \<or>
     (\<exists>dest fid fiid.
        subscript res ''fair_re_dest_path'' = Inr (JStr dest) \<and>
        subscript res ''flow_id'' = Inr fid \<and> subscript res ''flow_instance_id'' = Inr fiid \<and>
        r = None \<and>
        files w' = (files w)(p_state_file p \<mapsto> Json_text (JObj (updated_state env a p dest fid fiid))) \<and>
        filter is_file_event (trace w') =
          filter is_file_event (trace w) @
            [Open_write (p_state_file p),
             Dump (p_state_file p) (JObj (updated_state env a p dest fid fiid))])"
  by (auto simp: persist_def split: sum.splits json.splits)

lemma conclude_cases:
  "conclude env a p res w = (r, w') \<Longrightarrow>
     (files w' = files w \<and> filter is_file_event (trace w') = filter is_file_event (trace w)) \<or>
     (\<exists>ok dest fid fiid.
        subscript res ''success'' = Inr ok \<and> truthy ok \<and> \<not> dry_run a \<and>
        subscript res ''fair_re_dest_path'' = Inr (JStr dest) \<and>
        subscript res ''flow_id'' = Inr fid \<and> subscript res ''flow_instance_id'' = Inr fiid \<and>
        r = None \<and>
        files w' = (files w)(p_state_file p \<mapsto> Json_text (JObj (updated_state env a p dest fid fiid))) \<and>
        filter is_file_event (trace w') =
          filter is_file_event (trace w) @
            [Open_write (p_state_file p),
             Dump (p_state_file p) (JObj (updated_state env a p dest fid fiid))])"
  by (auto simp: conclude_def split: sum.splits if_splits dest!: persist_cases)

lemma run_written:
  assumes "files (snd (run env a w)) \<noteq> files w"
  obtains p res ok dest fid fiid where
    "fst (prepare env a w) = Inr p"
    "fst (start_flow env a p (snd (prepare env a w))) = Inr res"
    "subscript res ''success'' = Inr ok" "truthy ok" "\<not> dry_run a"
    "subscript res ''fair_re_dest_path'' = Inr (JStr dest)"
    "subscript res ''flow_id'' = Inr fid" "subscript res ''flow_instance_id'' = Inr fiid"
    "fst (run env a w) = None"
    "files (snd (run env a w)) =
       (files w)(p_state_file p \<mapsto> Json_text (JObj (updated_state env a p dest fid fiid)))"
    "filter is_file_event (trace (snd (run env a w))) =
       filter is_file_event (trace w) @
         map Open_read (state_path env (client_state_file a) # optional_paths a) @
         [Open_write (p_state_file p), Dump (p_state_file p) (JObj (updated_state env a p dest fid fiid))]"
proof (cases "fst (prepare env a w)")
  case (Inl e)
  with assms show ?thesis by (simp add: run_def case_prod_beta)
next
  case (Inr p)
  note prep = this
  show ?thesis
  proof (cases "fst (start_flow env a p (snd (prepare env a w)))")
    case (Inl e)
    with assms prep show ?thesis by (simp add: run_def case_prod_beta)
  next
    case (Inr res)
    let ?w2 = "snd (start_flow env a p (snd (prepare env a w)))"
    have run_eq: "run env a w = conclude env a p res ?w2"
      using prep Inr by (simp add: run_def case_prod_beta)
    have f2: "files ?w2 = files w"
      "filter is_file_event (trace ?w2) =
         filter is_file_event (trace w) @
           map Open_read (state_path env (client_state_file a) # optional_paths a)"
      using prepare_events[OF prep] by simp_all
    from conclude_cases[of env a p res ?w2 "fst (run env a w)" "snd (run env a w)"] run_eq assms f2
    obtain ok dest fid fiid where
      "subscript res ''success'' = Inr ok" "truthy ok" "\<not> dry_run a"
      "subscript res ''fair_re_dest_path'' = Inr (JStr dest)"
      "subscript res ''flow_id'' = Inr fid" "subscript res ''flow_instance_id'' = Inr fiid"
      "fst (run env a w) = None"
      "files (snd (run env a w)) =
         (files w)(p_state_file p \<mapsto> Json_text (JObj (updated_state env a p dest fid fiid)))"
      "filter is_file_event (trace (snd (run env a w))) =
         filter is_file_event (trace w) @
           map Open_read (state_path env (client_state_file a) # optional_paths a) @
           [Open_write (p_state_file p), Dump (p_state_file p) (JObj (updated_state env a p dest fid fiid))]"
      by auto
    with prep Inr that show ?thesis by blast
  qed
qed

lemma run_dry_run:
  "dry_run a \<Longrightarrow> files (snd (run env a w)) = files w"
  "dry_run a \<Longrightarrow>
     filter is_file_write (trace (snd (run env a w))) = filter is_file_write (trace w)"
  by (simp_all add: run_def case_prod_beta conclude_dry_run split: sum.splits)

lemma dict_get_flow_fields:
  "k \<notin> set [''service_instance'', ''flow_id'', ''flow_instance_id'', ''http_link'', ''globus_web_link''] \<Longrightarrow>
     dict_get k (flow_fields si fid fiid h g st) = dict_get k st"
  by (simp add: flow_fields_def dict_get_dict_set)

lemma service_instance_flow_fields:
  "dict_get ''service_instance'' (flow_fields si fid fiid h g st) = si"
  by (simp add: flow_fields_def dict_get_dict_set)

lemma load_state_written:
  "files w' = (files w)(path \<mapsto> Json_text j) \<Longrightarrow> fst (load_state vb path w') = Inr j"
  by (simp add: load_state_result)

lemma load_state_same_files:
  "files w' = files w \<Longrightarrow> fst (load_state vb path w') = fst (load_state vb' path w)"
  by (simp add: load_state_result)

lemma map_of_overwrite: "map_of (overwrite ov st) = map_of st ++ map_of (rev ov)"
proof (induction ov arbitrary: st)
  case Nil
  then show ?case by (simp add: overwrite_def)
next
  case (Cons x ov)
  obtain k v where x: "x = (k, v)" by (cases x)
  have "map_of (overwrite (x # ov) st) = map_of (overwrite ov (dict_set k v st))"
    by (simp add: overwrite_def x)
  also have "\<dots> = (map_of st)(k \<mapsto> v) ++ map_of (rev ov)"
    by (simp only: Cons map_of_dict_set)
  also have "\<dots> = map_of st ++ map_of (rev (x # ov))"
    by (auto simp: x map_add_def fun_eq_iff split: option.splits)
  finally show ?case .
qed

lemma overwrite_other:
  "k \<notin> fst ` set ov \<Longrightarrow> map_of (overwrite ov st) k = map_of st k"
  by (simp add: map_of_overwrite map_add_def map_of_eq_None_iff[THEN iffD2])

lemma overwrite_field:
  "distinct (map fst ov) \<Longrightarrow> (k, v) \<in> set ov \<Longrightarrow> dict_get k (overwrite ov st) = v"
  by (simp add: dict_get_def map_of_overwrite map_add_def rev_map[symmetric])

lemma updated_state_overwrite:
  assumes "fst (prepare env a w) = Inr p"
  shows "updated_state env a p dest fid fiid =
           overwrite (run_overrides env a p dest fid fiid) (p_loaded p)"
  using prepare_result(3)[OF assms]
  by (simp add: updated_state_def flow_fields_def overwrite_def run_overrides_def)

lemma run_overrides_keys:
  "set (map fst (run_overrides env a p dest fid fiid)) \<subseteq> set state_fields"
  "distinct (map fst (run_overrides env a p dest fid fiid))"
  by (auto simp: run_overrides_def state_fields_def)

lemma open_write_simps [simp]:
  "files (open_write path w) = (files w)(path \<mapsto> Truncated)"
  "trace (open_write path w) = trace w @ [Open_write path]"
  by (simp_all add: open_write_def set_file_def)

text \<open>A successful submission that is not a dry run writes the state file.\<close>

lemma success_writes:
  assumes prep: "fst (prepare env a w) = Inr p"
    and flow: "fst (start_flow env a p (snd (prepare env a w))) = Inr res"
    and ok: "succeeded res m dest fid fiid"
    and real: "\<not> dry_run a"
  shows "fst (run env a w) = None"
    and "files (snd (run env a w)) =
           (files w)(p_state_file p \<mapsto> Json_text (JObj (updated_state env a p dest fid fiid)))"
    and "history (snd (run env a w)) =
           history w @
             [(files w)(p_state_file p \<mapsto> Truncated),
              (files w)(p_state_file p \<mapsto> Json_text (JObj (updated_state env a p dest fid fiid)))]"
    and "filter is_file_event (trace (snd (run env a w))) =
           filter is_file_event (trace w) @
             map Open_read (state_path env (client_state_file a) # optional_paths a) @
             [Open_write (p_state_file p),
              Dump (p_state_file p) (JObj (updated_state env a p dest fid fiid))]"
proof -
  let ?w2 = "snd (start_flow env a p (snd (prepare env a w)))"
  have run_eq: "run env a w = persist env a p res (say (Flow_message m) ?w2)"
    using prep flow ok real
    by (simp add: run_def case_prod_beta conclude_def succeeded_def split: sum.splits)
  have pers: "persist env a p res (say (Flow_message m) ?w2) =
      (None,
       say (Bag_http_download (EP_URL env @ dest))
         (say (Bag_available (basename dest) (globus_link env (dirname dest)))
           (say_if (verbose a) (State_saved_to (p_state_file p))
             (write_state (p_state_file p) (JObj (updated_state env a p dest fid fiid))
                (say (Flow_message m) ?w2)))))"
    using ok by (simp add: persist_def succeeded_def)
  show "fst (run env a w) = None"
    by (simp add: run_eq pers)
  show "files (snd (run env a w)) =
           (files w)(p_state_file p \<mapsto> Json_text (JObj (updated_state env a p dest fid fiid)))"
    by (simp add: run_eq pers)
  show "history (snd (run env a w)) =
           history w @
             [(files w)(p_state_file p \<mapsto> Truncated),
              (files w)(p_state_file p \<mapsto> Json_text (JObj (updated_state env a p dest fid fiid)))]"
    by (simp add: run_eq pers)
  show "filter is_file_event (trace (snd (run env a w))) =
           filter is_file_event (trace w) @
             map Open_read (state_path env (client_state_file a) # optional_paths a) @
             [Open_write (p_state_file p),
              Dump (p_state_file p) (JObj (updated_state env a p dest fid fiid))]"
    using prepare_events[OF prep] by (simp add: run_eq pers)
qed

subsection \<open>The concrete runs\<close>

lemma example_state_path:
  "state_path example_env (client_state_file example_args) = ''/home/u/.cfde_client.json''"
  "state_path example_env None = ''/home/u/.cfde_client.json''"
  by (simp_all add: state_path_def example_env_def example_args_def)

lemma prepare_fresh:
  "fst (prepare example_env example_args fresh_world) = Inr fresh_prepared"
  "fst (prepare example_env dry_args fresh_world) = Inr fresh_prepared"
  by (simp_all add: eval_defs)

lemma prepare_saved:
  "fst (prepare example_env example_args saved_world) = Inr saved_prepared"
  by (simp add: eval_defs)

lemma run_fresh:
  "fst (run example_env example_args fresh_world) = None"
  "files (snd (run example_env example_args fresh_world)) =
     [''/home/u/.cfde_client.json'' \<mapsto> Json_text (JObj fresh_after)]"
  "filter is_file_event (trace (snd (run example_env example_args fresh_world))) =
     [Open_read ''/home/u/.cfde_client.json'', Open_write ''/home/u/.cfde_client.json'',
      Dump ''/home/u/.cfde_client.json'' (JObj fresh_after)]"
  by (simp_all add: eval_defs)

lemma run_saved:
  "fst (run example_env example_args saved_world) = None"
  "files (snd (run example_env example_args saved_world)) =
     [''/home/u/.cfde_client.json'' \<mapsto> Json_text (JObj saved_after)]"
  "filter is_file_event (trace (snd (run example_env example_args saved_world))) =
     [Open_read ''/home/u/.cfde_client.json'', Open_write ''/home/u/.cfde_client.json'',
      Dump ''/home/u/.cfde_client.json'' (JObj saved_after)]"
  by (simp_all add: eval_defs)

lemma run_dry:
  "fst (run example_env dry_args fresh_world) = None"
  "files (snd (run example_env dry_args fresh_world)) = Map.empty"
  "trace (snd (run example_env dry_args fresh_world)) =
     [Open_read ''/home/u/.cfde_client.json'', Prompt Console Ask_email, Read_line ''me@x.org '',
      Prompt Console (Ask_save_email (JStr ''me@x.org'')), Read_line ''Yes'',
      Call_CfdeClient (run_kwargs dry_args),
      Call_start_deriva_flow (request dry_args fresh_prepared []),
      Print Console (Flow_message (JStr ''started''))]"
  by (simp_all add: eval_defs)

lemma files_differ: "f p \<noteq> g p \<Longrightarrow> f \<noteq> g"
  by auto

lemma run_fresh_wrote: "files (snd (run example_env example_args fresh_world)) \<noteq> files fresh_world"
  by (rule files_differ[of _ "''/home/u/.cfde_client.json''"]) (simp add: run_fresh(2), simp add: fresh_world_def)

lemma run_saved_wrote: "files (snd (run example_env example_args saved_world)) \<noteq> files saved_world"
  by (rule files_differ[of _ "''/home/u/.cfde_client.json''"])
     (simp add: run_saved(2), simp add: saved_world_def saved_after_def saved_state_def)

lemma start_flow_saved:
  "fst (start_flow example_env example_args saved_prepared
          (snd (prepare example_env example_args saved_world))) = Inr started"
  by (simp add: start_flow_def Let_def example_env_def saved_prepared_def started_def
        explicit_keywords_def)

lemma succeeded_started:
  "succeeded started (JStr ''started'') ''/public/bag.zip'' (JStr ''F9'') (JStr ''I9'')"
  by (simp add: succeeded_def started_def)

lemma run_saved_history:
  "map (\<lambda>fs. fs ''/home/u/.cfde_client.json'')
     (history (snd (run example_env example_args saved_world))) =
     [Some Truncated, Some (Json_text (JObj saved_after))]"
  by (simp add: eval_defs)

lemma overrides_saved:
  "overwrite (run_overrides example_env example_args saved_prepared ''/public/bag.zip''
                (JStr ''F9'') (JStr ''I9'')) saved_state = saved_after"
  by (simp add: overwrite_def run_overrides_def saved_prepared_def saved_state_def saved_after_def
        example_env_def example_args_def globus_link_def dirname_def)

lemma updated_saved:
  "updated_state example_env example_args saved_prepared ''/public/bag.zip'' (JStr ''F9'') (JStr ''I9'')
     = saved_after"
  by (simp add: updated_state_def flow_fields_def saved_prepared_def saved_state_def saved_after_def
        example_env_def example_args_def globus_link_def dirname_def)

section \<open>The email decision of run\<close>

text \<open>
  With an email given on the command line and no other email saved (none saved, or the
  same one), none of the three branches of lines 76-92 is taken: the email is kept and
  \<^verbatim>\<open>save_email\<close> stays unbound.
\<close>

lemma determine_email_unbound:
  "email \<noteq> JNull \<Longrightarrow> state_email = JNull \<or> state_email = email \<Longrightarrow>
     determine_email vb email state_email w = (Inr (email, None), w)"
  by (auto simp: determine_email_def)

text \<open>
  C1. The claim: for every pair of given and saved email the resolution yields a defined
  \<^verbatim>\<open>should_save\<close> (false when an email is given and none, or the same one, is saved),
  and the later test of it never meets an unbound variable. The code at the input
  \<^verbatim>\<open>--author-email a@x\<close> with no state file: \<^verbatim>\<open>save_email\<close> is unbound after the
  branches, line 94 raises \<^verbatim>\<open>UnboundLocalError\<close>, and the command ends there, before
  any call of the client. The same happens when the email given is the saved one.
\<close>

theorem run_given_email_none_saved:
  "fst (determine_email False (JStr ''a@x'') JNull fresh_world) = Inr (JStr ''a@x'', None) \<and>
   fst (run example_env (example_args\<lparr>author_email := Some ''a@x''\<rparr>) fresh_world)
     = Some (UnboundLocalError ''save_email'') \<and>
   filter is_remote_call
     (trace (snd (run example_env (example_args\<lparr>author_email := Some ''a@x''\<rparr>) fresh_world))) = [] \<and>
   fst (run example_env (example_args\<lparr>author_email := Some ''old@x.org''\<rparr>) saved_world)
     = Some (UnboundLocalError ''save_email'')"
  by (simp add: ex_defs run_defs Let_def)

section \<open>The status command with both identifiers given\<close>

text \<open>
  When both identifiers are given, lines 150-162 are skipped, so \<^verbatim>\<open>service_instance\<close>
  is unbound on line 164; the \<^verbatim>\<open>UnboundLocalError\<close> is raised inside the second
  \<^verbatim>\<open>try\<close> and reported as a failed status check. No call is made.
\<close>

lemma status_both_explicit:
  "truthy (opt_str fid) \<Longrightarrow> truthy (opt_str fiid) \<Longrightarrow>
     status env fid fiid raw csf w =
       (None, say (Error_checking_status (opt_str fid)
                     (if raw then Repr (UnboundLocalError ''service_instance'')
                      else Str (UnboundLocalError ''service_instance''))) w)"
  by (simp add: status_def resolve_flow_def query_status_def present_def)

text \<open>
  On the other path, where the saved state is consulted and both identifiers are found,
  the client is constructed, the status check is called with the two identifiers, and
  its result is written whole (\<^verbatim>\<open>--raw\<close>) or as its \<^verbatim>\<open>clean_status\<close>.
\<close>

lemma status_fallback_presents:
  assumes "resolve_flow env fid fiid csf w = (Inr (Resolved f i (Some si)), w1)"
    and "CfdeClient env (status_kwargs si) w1 = None"
    and "check_status env (status_kwargs si) f i (log (Call_CfdeClient (status_kwargs si)) w1) = Inr r"
  shows "status env fid fiid True csf w =
           (None, say (Raw_status r)
                    (log (Call_check_status f i) (log (Call_CfdeClient (status_kwargs si)) w1)))"
    and "subscript r ''clean_status'' = Inr c \<Longrightarrow>
         status env fid fiid False csf w =
           (None, say (Clean_status c)
                    (log (Call_check_status f i) (log (Call_CfdeClient (status_kwargs si)) w1)))"
  using assms by (simp_all add: status_def query_status_def present_def)

text \<open>
  C4. The claim: whenever both identifiers resolve, in particular when the caller gives
  both, the status check of the client is called with them and its result is shown. The
  code at \<^verbatim>\<open>--flow-id F1 --flow-instance-id I1\<close>: the error message of line 171 is
  written and the trace holds no call of the client.
\<close>

theorem status_explicit_ids_unbound:
  "status example_env (Some ''F1'') (Some ''I1'') False None fresh_world =
     (None, say (Error_checking_status (JStr ''F1'') (Str (UnboundLocalError ''service_instance'')))
              fresh_world) \<and>
   filter is_remote_call
     (trace (snd (status example_env (Some ''F1'') (Some ''I1'') False None fresh_world))) = []"
  by (simp add: status_def resolve_flow_def query_status_def present_def ex_defs)

section \<open>Loading the state\<close>



section \<open>Resolving the flow to query\<close>

text \<open>
  C3. \<^verbatim>\<open>status\<close> uses the identifiers the caller gave and takes a saved one only for an
  identifier that was not given (\<^verbatim>\<open>None\<close> or empty). When the saved state has to be
  consulted and there is no state file, or an identifier is still missing after the
  fallback, the command writes the message of line 161 and returns: nothing else is
  written and no call of the client is made.
\<close>

theorem status_resolution:
  "(truthy (opt_str fid) \<and> truthy (opt_str fiid) \<longrightarrow>
      resolve_flow env fid fiid csf w = (Inr (Resolved (opt_str fid) (opt_str fiid) None), w)) \<and>
   (\<not> (truthy (opt_str fid') \<and> truthy (opt_str fiid')) \<and>
    files w (state_path env csf) = Some (Json_text (JObj st)) \<and>
    truthy (fallback fid' ''flow_id'' st) \<and> truthy (fallback fiid' ''flow_instance_id'' st) \<longrightarrow>
      resolve_flow env fid' fiid' csf w =
        (Inr (Resolved (fallback fid' ''flow_id'' st) (fallback fiid' ''flow_instance_id'' st)
                (Some (dict_get ''service_instance'' st))),
         log (Open_read (state_path env csf)) w)) \<and>
   (\<not> (truthy (opt_str fid') \<and> truthy (opt_str fiid')) \<and>
    (files w (state_path env csf) = None \<or>
     files w (state_path env csf) = Some (Json_text (JObj st)) \<and>
     \<not> (truthy (fallback fid' ''flow_id'' st) \<and> truthy (fallback fiid' ''flow_instance_id'' st))) \<longrightarrow>
      status env fid' fiid' raw csf w =
        (None, say Flow_not_started (log (Open_read (state_path env csf)) w)) \<and>
      filter is_remote_call (trace (snd (status env fid' fiid' raw csf w))) =
        filter is_remote_call (trace w))"
  by (auto simp: status_def resolve_flow_def read_json_def Let_def fallback_def py_or_def)

theorem status_resolution_witness:
  "resolve_flow example_env (Some ''F1'') (Some ''I1'') None saved_world =
     (Inr (Resolved (JStr ''F1'') (JStr ''I1'') None), saved_world) \<and>
   fst (resolve_flow example_env (Some ''F1'') None None saved_world) =
     Inr (Resolved (JStr ''F1'') (JStr ''I2'') (Some (JStr ''dev''))) \<and>
   fst (resolve_flow example_env None None None saved_world) =
     Inr (Resolved (JStr ''F2'') (JStr ''I2'') (Some (JStr ''dev''))) \<and>
   files fresh_world (state_path example_env None) = None \<and>
   fst (status example_env None None False None fresh_world) = None \<and>
   trace (snd (status example_env None None False None fresh_world)) =
     [Open_read ''/home/u/.cfde_client.json'', Print Console Flow_not_started] \<and>
   files emailed_world (state_path example_env None) =
     Some (Json_text (JObj [(''author_email'', JStr ''old@x.org'')])) \<and>
   fst (status example_env (Some ''F1'') None False None emailed_world) = None \<and>
   trace (snd (status example_env (Some ''F1'') None False None emailed_world)) =
     [Open_read ''/home/u/.cfde_client.json'', Print Console Flow_not_started]"
  using status_resolution [of "Some ''F1''" "Some ''I1''" example_env None saved_world
           "Some ''F1''" None saved_state False]
    status_resolution [of "Some ''F1''" "Some ''I1''" example_env None saved_world
           None None saved_state False]
    status_resolution [of "Some ''F1''" "Some ''I1''" example_env None fresh_world
           None None "[]" False]
    status_resolution [of "Some ''F1''" "Some ''I1''" example_env None emailed_world
           "Some ''F1''" None "[(''author_email'', JStr ''old@x.org'')]" False]
  by (simp add: ex_defs fallback_def dict_get_def state_path_def log_def say_def)

section \<open>Failures of the submission\<close>

text \<open>
  C7. An exception raised by the construction of the client or by the submission call
  reaches the \<^verbatim>\<open>except\<close> clause of line 112; whatever reaches it is reported with the
  message of line 113 and the command returns without raising. A result whose
  \<^verbatim>\<open>success\<close> is false is reported with its \<^verbatim>\<open>error\<close> and the command returns. In
  both cases no file is written.
\<close>

theorem submission_failures_are_soft:
  "(CfdeClient env (run_kwargs a) (say_if (verbose a) Initializing_Flow w1) = Some x \<longrightarrow>
      fst (start_flow env a p w1) = Inl (External x)) \<and>
   (CfdeClient env (run_kwargs a) (say_if (verbose a) Initializing_Flow w1) = None \<and>
    p_bag_kwargs p = JObj kvs \<and> list_all (\<lambda>k. k \<notin> set explicit_keywords) (map fst kvs) \<and>
    start_deriva_flow env (run_kwargs a) (request a p kvs)
      (log (Call_CfdeClient (run_kwargs a)) (say_if (verbose a) Initializing_Flow w1)) = Inl x \<longrightarrow>
      fst (start_flow env a p w1) = Inl (External x)) \<and>
   (fst (prepare env a w) = Inr p \<and>
    fst (start_flow env a p (snd (prepare env a w))) = Inl e \<longrightarrow>
      run env a w =
        (None, say (Error_while_starting_Flow e) (snd (start_flow env a p (snd (prepare env a w))))) \<and>
      files (snd (run env a w)) = files w \<and>
      filter is_file_write (trace (snd (run env a w))) = filter is_file_write (trace w)) \<and>
   (fst (prepare env a w) = Inr p \<and>
    fst (start_flow env a p (snd (prepare env a w))) = Inr res \<and>
    subscript res ''success'' = Inr ok \<and> \<not> truthy ok \<and> subscript res ''error'' = Inr err \<longrightarrow>
      run env a w =
        (None, say (Error_during_Flow_startup err) (snd (start_flow env a p (snd (prepare env a w))))) \<and>
      files (snd (run env a w)) = files w \<and>
      filter is_file_write (trace (snd (run env a w))) = filter is_file_write (trace w))"
proof -
  have client: "fst (start_flow env a p w1) = Inl (External x)"
    if "CfdeClient env (run_kwargs a) (say_if (verbose a) Initializing_Flow w1) = Some x"
    using that by (simp add: start_flow_def Let_def)
  have flow: "fst (start_flow env a p w1) = Inl (External x)"
    if "CfdeClient env (run_kwargs a) (say_if (verbose a) Initializing_Flow w1) = None"
      and "p_bag_kwargs p = JObj kvs"
      and "list_all (\<lambda>k. k \<notin> set explicit_keywords) (map fst kvs)"
      and "start_deriva_flow env (run_kwargs a) (request a p kvs)
             (log (Call_CfdeClient (run_kwargs a)) (say_if (verbose a) Initializing_Flow w1)) = Inl x"
    using that by (auto simp: start_flow_def Let_def list_ex_iff list_all_iff)
  have raised: "run env a w =
        (None, say (Error_while_starting_Flow e) (snd (start_flow env a p (snd (prepare env a w))))) \<and>
      files (snd (run env a w)) = files w \<and>
      filter is_file_write (trace (snd (run env a w))) = filter is_file_write (trace w)"
    if "fst (prepare env a w) = Inr p"
      and "fst (start_flow env a p (snd (prepare env a w))) = Inl e"
    using that by (simp add: run_def case_prod_beta)
  have refused: "run env a w =
        (None, say (Error_during_Flow_startup err) (snd (start_flow env a p (snd (prepare env a w))))) \<and>
      files (snd (run env a w)) = files w \<and>
      filter is_file_write (trace (snd (run env a w))) = filter is_file_write (trace w)"
    if "fst (prepare env a w) = Inr p"
      and "fst (start_flow env a p (snd (prepare env a w))) = Inr res"
      and "subscript res ''success'' = Inr ok" and "\<not> truthy ok"
      and "subscript res ''error'' = Inr err"
    using that by (simp add: run_def conclude_def case_prod_beta)
  from client flow raised refused show ?thesis by blast
qed

theorem submission_failures_are_soft_witness:
  "fst (prepare offline_env example_args saved_world) = Inr saved_prepared \<and>
   fst (start_flow offline_env example_args saved_prepared
          (snd (prepare offline_env example_args saved_world))) = Inl (External timeout_error) \<and>
   fst (run offline_env example_args saved_world) = None \<and>
   trace (snd (run offline_env example_args saved_world)) =
     [Open_read ''/home/u/.cfde_client.json'', Print Console (Using_saved_email (JStr ''old@x.org'')),
      Call_CfdeClient (run_kwargs example_args),
      Print Console (Error_while_starting_Flow (External timeout_error))] \<and>
   files (snd (run offline_env example_args saved_world)) = files saved_world \<and>
   fst (start_flow failing_env example_args saved_prepared
          (snd (prepare failing_env example_args saved_world))) = Inl (External timeout_error) \<and>
   fst (run failing_env example_args saved_world) = None \<and>
   last (trace (snd (run failing_env example_args saved_world))) =
     Print Console (Error_while_starting_Flow (External timeout_error)) \<and>
   files (snd (run failing_env example_args saved_world)) = files saved_world \<and>
   fst (start_flow refusing_env example_args saved_prepared
          (snd (prepare refusing_env example_args saved_world))) = Inr refusal \<and>
   subscript refusal ''success'' = Inr (JBool False) \<and>
   subscript refusal ''error'' = Inr (JStr ''bad catalog'') \<and>
   fst (run refusing_env example_args saved_world) = None \<and>
   last (trace (snd (run refusing_env example_args saved_world))) =
     Print Console (Error_during_Flow_startup (JStr ''bad catalog'')) \<and>
   files (snd (run refusing_env example_args saved_world)) = files saved_world"
  using submission_failures_are_soft [where env = offline_env and a = example_args
      and w = saved_world and p = saved_prepared and e = "External timeout_error"
      and ?w1.0 = "snd (prepare offline_env example_args saved_world)" and x = timeout_error
      and kvs = "[]" and res = refusal and ok = "JBool False" and err = "JStr ''bad catalog''"]
    submission_failures_are_soft [where env = failing_env and a = example_args
      and w = saved_world and p = saved_prepared and e = "External timeout_error"
      and ?w1.0 = "snd (prepare failing_env example_args saved_world)" and x = timeout_error
      and kvs = "[]" and res = refusal and ok = "JBool False" and err = "JStr ''bad catalog''"]
    submission_failures_are_soft [where env = refusing_env and a = example_args
      and w = saved_world and p = saved_prepared and e = "External timeout_error"
      and ?w1.0 = "snd (prepare refusing_env example_args saved_world)" and x = timeout_error
      and kvs = "[]" and res = refusal and ok = "JBool False" and err = "JStr ''bad catalog''"]
  by (simp add: ex_defs run_defs Let_def)

section \<open>Logging out\<close>

lemma probe_simps [simp]:
  "fst (probe env w) = CfdeClient env logout_kwargs (probe_world w)"
  "trace (snd (probe env w)) = trace w @ [Call_CfdeClient logout_kwargs]"
  "files (snd (probe env w)) = files w"
  by (simp_all add: probe_def probe_world_def)

lemma restore_simps [simp]:
  "sys_stdout (restore w0 w) = sys_stdout w0" "sys_stdin (restore w0 w) = sys_stdin w0"
  "trace (restore w0 w) = trace w" "files (restore w0 w) = files w"
  by (simp_all add: restore_def)





section \<open>When the state file is written\<close>

text \<open>
  C8. A dry run never writes a file. Whenever \<^verbatim>\<open>run\<close> changes a file, the run is not a
  dry run and the submission returned a result whose \<^verbatim>\<open>success\<close> is true. The email
  the state file holds after the command is the one it held before unless
  \<^verbatim>\<open>save_email\<close> was true, and when \<^verbatim>\<open>save_email\<close> was true and the file was written it
  is the email in use: the decision is taken in lines 76-92, before the submission, and
  takes effect only with the write of lines 132-133.
\<close>

theorem email_saved_only_after_success:
  "(dry_run a \<longrightarrow>
      files (snd (run env a w)) = files w \<and>
      filter is_file_write (trace (snd (run env a w))) = filter is_file_write (trace w)) \<and>
   (files (snd (run env a w)) \<noteq> files w \<longrightarrow>
      \<not> dry_run a \<and>
      (\<exists>p res ok. fst (prepare env a w) = Inr p \<and>
         fst (start_flow env a p (snd (prepare env a w))) = Inr res \<and>
         subscript res ''success'' = Inr ok \<and> truthy ok)) \<and>
   (fst (prepare env a w) = Inr p \<and> \<not> p_save_email p \<and>
    fst (load_state vb (state_path env (client_state_file a)) (snd (run env a w))) = Inr (JObj st') \<longrightarrow>
      dict_get ''author_email'' st' = dict_get ''author_email'' (p_loaded p)) \<and>
   (fst (prepare env a w) = Inr p \<and> p_save_email p \<and> files (snd (run env a w)) \<noteq> files w \<and>
    fst (load_state vb (state_path env (client_state_file a)) (snd (run env a w))) = Inr (JObj st') \<longrightarrow>
      dict_get ''author_email'' st' = p_author_email p)"
proof -
  have written: "\<not> dry_run a \<and>
      (\<exists>p res ok. fst (prepare env a w) = Inr p \<and>
         fst (start_flow env a p (snd (prepare env a w))) = Inr res \<and>
         subscript res ''success'' = Inr ok \<and> truthy ok)"
    if "files (snd (run env a w)) \<noteq> files w"
    using that by (rule run_written) blast
  have persisted: "dict_get ''author_email'' st' = dict_get ''author_email'' (p_state p)"
    if prep: "fst (prepare env a w) = Inr p"
      and wr: "files (snd (run env a w)) \<noteq> files w"
      and ld: "fst (load_state vb (state_path env (client_state_file a)) (snd (run env a w))) = Inr (JObj st')"
  proof -
    from wr obtain q dest fid fiid where
      q: "fst (prepare env a w) = Inr q"
      and fs: "files (snd (run env a w)) =
         (files w)(p_state_file q \<mapsto> Json_text (JObj (updated_state env a q dest fid fiid)))"
      by (rule run_written)
    from q prep have "q = p" by simp
    with fs prepare_result(1)[OF prep] ld have "st' = updated_state env a p dest fid fiid"
      by (simp add: load_state_result)
    then show ?thesis
      by (simp add: updated_state_def dict_get_flow_fields)
  qed
  have kept: "dict_get ''author_email'' st' = dict_get ''author_email'' (p_loaded p)"
    if prep: "fst (prepare env a w) = Inr p" and ns: "\<not> p_save_email p"
      and ld: "fst (load_state vb (state_path env (client_state_file a)) (snd (run env a w))) = Inr (JObj st')"
  proof (cases "files (snd (run env a w)) = files w")
    case True
    from load_state_same_files[OF True, where vb = vb and vb' = vb] ld
      prepare_result(1)[OF prep] prepare_result(2)[OF prep, of vb]
    show ?thesis by simp
  next
    case False
    from persisted[OF prep False ld] prepare_result(3)[OF prep] ns show ?thesis by simp
  qed
  have saved: "dict_get ''author_email'' st' = p_author_email p"
    if prep: "fst (prepare env a w) = Inr p" and sv: "p_save_email p"
      and wr: "files (snd (run env a w)) \<noteq> files w"
      and ld: "fst (load_state vb (state_path env (client_state_file a)) (snd (run env a w))) = Inr (JObj st')"
    using persisted[OF prep wr ld] prepare_result(3)[OF prep] sv
    by (simp add: dict_get_dict_set)
  from run_dry_run[of a env w] written kept saved show ?thesis by blast
qed

theorem email_saved_only_after_success_witness:
  "dry_run dry_args \<and>
   fst (prepare example_env dry_args fresh_world) = Inr fresh_prepared \<and> p_save_email fresh_prepared \<and>
   files (snd (run example_env dry_args fresh_world)) = files fresh_world \<and>
   filter is_file_write (trace (snd (run example_env dry_args fresh_world))) = [] \<and>
   files (snd (run example_env example_args fresh_world)) \<noteq> files fresh_world \<and>
   \<not> dry_run example_args \<and>
   fst (prepare example_env example_args saved_world) = Inr saved_prepared \<and>
   \<not> p_save_email saved_prepared \<and>
   fst (load_state False (state_path example_env (client_state_file example_args))
          (snd (run example_env example_args saved_world))) = Inr (JObj saved_after) \<and>
   dict_get ''author_email'' saved_after = JStr ''old@x.org'' \<and>
   fst (prepare example_env example_args fresh_world) = Inr fresh_prepared \<and>
   fst (load_state False (state_path example_env (client_state_file example_args))
          (snd (run example_env example_args fresh_world))) = Inr (JObj fresh_after) \<and>
   dict_get ''author_email'' fresh_after = JStr ''me@x.org''"
proof -
  have ld: "fst (load_state False (state_path example_env (client_state_file example_args))
          (snd (run example_env example_args saved_world))) = Inr (JObj saved_after)"
    "fst (load_state False (state_path example_env (client_state_file example_args))
          (snd (run example_env example_args fresh_world))) = Inr (JObj fresh_after)"
    by (simp_all add: load_state_result run_saved(2) run_fresh(2) example_state_path)
  have dry: "dry_run dry_args" "\<not> dry_run example_args"
    by (simp_all add: dry_args_def example_args_def)
  have sv: "p_save_email fresh_prepared" "\<not> p_save_email saved_prepared"
    by (simp_all add: fresh_prepared_def saved_prepared_def)
  have tr: "trace fresh_world = []"
    by (simp add: fresh_world_def)
  have em: "dict_get ''author_email'' saved_after = JStr ''old@x.org''"
    "dict_get ''author_email'' fresh_after = JStr ''me@x.org''"
    by (simp_all add: saved_after_def fresh_after_def dict_get_def)
  from email_saved_only_after_success [of dry_args example_env fresh_world fresh_prepared False "[]"] dry
  have "files (snd (run example_env dry_args fresh_world)) = files fresh_world \<and>
      filter is_file_write (trace (snd (run example_env dry_args fresh_world))) =
        filter is_file_write (trace fresh_world)"
    by blast
  moreover
  from email_saved_only_after_success [of example_args example_env fresh_world fresh_prepared False fresh_after]
    run_fresh_wrote
  have "\<not> dry_run example_args" by blast
  ultimately show ?thesis
    using ld dry sv prepare_fresh prepare_saved run_fresh_wrote tr em by simp
qed

text \<open>
  C5. Let \<open>S\<close> be the record loaded from the state file (the empty record when there is
  no file). When \<^verbatim>\<open>run\<close> writes the file, loading it again yields \<open>S\<close> with the fields
  the command set overwritten: these are among the six known fields, each holds the
  value written, and every other key of \<open>S\<close>, known or not, is present with its old
  value.
\<close>

theorem merge_invariant:
  assumes "fst (load_state vb (state_path env (client_state_file a)) w) = Inr (JObj S)"
    and "files (snd (run env a w)) \<noteq> files w"
  shows "\<exists>ov. set (map fst ov) \<subseteq> set state_fields \<and>
           fst (load_state vb' (state_path env (client_state_file a)) (snd (run env a w))) =
             Inr (JObj (overwrite ov S)) \<and>
           (\<forall>k v. (k, v) \<in> set ov \<longrightarrow> dict_get k (overwrite ov S) = v) \<and>
           (\<forall>k. k \<notin> fst ` set ov \<longrightarrow> map_of (overwrite ov S) k = map_of S k)"
proof -
  from assms(2) obtain p dest fid fiid where
    prep: "fst (prepare env a w) = Inr p"
    and fs: "files (snd (run env a w)) =
       (files w)(p_state_file p \<mapsto> Json_text (JObj (updated_state env a p dest fid fiid)))"
    by (rule run_written)
  let ?ov = "run_overrides env a p dest fid fiid"
  from prepare_result(1)[OF prep] prepare_result(2)[OF prep, of vb] assms(1) have S: "p_loaded p = S"
    and path: "p_state_file p = state_path env (client_state_file a)"
    by simp_all
  have "fst (load_state vb' (state_path env (client_state_file a)) (snd (run env a w))) =
          Inr (JObj (overwrite ?ov S))"
    using load_state_written[OF fs] updated_state_overwrite[OF prep] S path by simp
  moreover have "\<forall>k v. (k, v) \<in> set ?ov \<longrightarrow> dict_get k (overwrite ?ov S) = v"
    using overwrite_field[OF run_overrides_keys(2)] by blast
  moreover have "\<forall>k. k \<notin> fst ` set ?ov \<longrightarrow> map_of (overwrite ?ov S) k = map_of S k"
    using overwrite_other by blast
  ultimately show ?thesis
    using run_overrides_keys(1) by blast
qed

theorem merge_invariant_witness:
  "fst (load_state False (state_path example_env (client_state_file example_args)) saved_world) =
     Inr (JObj saved_state) \<and>
   files (snd (run example_env example_args saved_world)) \<noteq> files saved_world \<and>
   (\<exists>ov. set (map fst ov) \<subseteq> set state_fields \<and>
      fst (load_state False (state_path example_env (client_state_file example_args))
             (snd (run example_env example_args saved_world))) = Inr (JObj (overwrite ov saved_state)) \<and>
      (\<forall>k v. (k, v) \<in> set ov \<longrightarrow> dict_get k (overwrite ov saved_state) = v) \<and>
      (\<forall>k. k \<notin> fst ` set ov \<longrightarrow> map_of (overwrite ov saved_state) k = map_of saved_state k)) \<and>
   fst (load_state False (state_path example_env (client_state_file example_args))
          (snd (run example_env example_args saved_world))) = Inr (JObj saved_after) \<and>
   dict_get ''extra'' saved_after = JInt 7 \<and> dict_get ''extra'' saved_state = JInt 7"
proof -
  have ld: "fst (load_state False (state_path example_env (client_state_file example_args)) saved_world) =
     Inr (JObj saved_state)"
    by (simp add: load_state_result example_state_path saved_world_def)
  have after: "fst (load_state False (state_path example_env (client_state_file example_args))
          (snd (run example_env example_args saved_world))) = Inr (JObj saved_after)"
    by (simp add: load_state_result run_saved(2) example_state_path)
  from merge_invariant [OF ld run_saved_wrote, of False] ld run_saved_wrote after
  show ?thesis
    by (simp add: saved_after_def saved_state_def dict_get_def)
qed

text \<open>
  C6, as the code has it. The claim: the write re-reads the file, layers the new values
  onto that copy, and replaces the file atomically (a temporary file and a rename), so
  that no partial record is ever visible. The code: whenever lines 44-99 complete, the
  submission returns a success and the run is not a dry run, the command returns
  normally and has written the state file in place. It read the file once, at the start;
  at the end it opens the same file for writing, which empties it, and then dumps the
  in-memory record, that is the loaded record with the fields of this command
  overwritten. So the file system passes through a state in which the state file is
  empty before it holds exactly that record.
\<close>

theorem state_written_in_place:
  assumes "fst (prepare env a w) = Inr p"
    and "fst (start_flow env a p (snd (prepare env a w))) = Inr res"
    and "succeeded res m dest fid fiid"
    and "\<not> dry_run a"
  shows "fst (run env a w) = None \<and>
         fst (load_state vb (state_path env (client_state_file a)) w) = Inr (JObj (p_loaded p)) \<and>
         filter is_file_event (trace (snd (run env a w))) =
           filter is_file_event (trace w) @
             map Open_read (state_path env (client_state_file a) # optional_paths a) @
             [Open_write (state_path env (client_state_file a)),
              Dump (state_path env (client_state_file a))
                (JObj (overwrite (run_overrides env a p dest fid fiid) (p_loaded p)))] \<and>
         history (snd (run env a w)) =
           history w @
             [(files w)(state_path env (client_state_file a) \<mapsto> Truncated),
              (files w)(state_path env (client_state_file a) \<mapsto>
                 Json_text (JObj (overwrite (run_overrides env a p dest fid fiid) (p_loaded p))))] \<and>
         files (snd (run env a w)) =
           (files w)(state_path env (client_state_file a) \<mapsto>
              Json_text (JObj (overwrite (run_overrides env a p dest fid fiid) (p_loaded p))))"
  using success_writes[OF assms] prepare_result(1)[OF assms(1)] prepare_result(2)[OF assms(1), of vb]
    updated_state_overwrite[OF assms(1), of dest fid fiid]
  by simp

theorem state_written_in_place_witness:
  "fst (prepare example_env example_args saved_world) = Inr saved_prepared \<and>
   fst (start_flow example_env example_args saved_prepared
          (snd (prepare example_env example_args saved_world))) = Inr started \<and>
   succeeded started (JStr ''started'') ''/public/bag.zip'' (JStr ''F9'') (JStr ''I9'') \<and>
   \<not> dry_run example_args \<and>
   fst (run example_env example_args saved_world) = None \<and>
   fst (load_state False ''/home/u/.cfde_client.json'' saved_world) = Inr (JObj saved_state) \<and>
   filter is_file_event (trace (snd (run example_env example_args saved_world))) =
     [Open_read ''/home/u/.cfde_client.json'', Open_write ''/home/u/.cfde_client.json'',
      Dump ''/home/u/.cfde_client.json'' (JObj saved_after)] \<and>
   history (snd (run example_env example_args saved_world)) =
     [(files saved_world)(''/home/u/.cfde_client.json'' \<mapsto> Truncated),
      (files saved_world)(''/home/u/.cfde_client.json'' \<mapsto> Json_text (JObj saved_after))] \<and>
   files (snd (run example_env example_args saved_world)) =
     (files saved_world)(''/home/u/.cfde_client.json'' \<mapsto> Json_text (JObj saved_after))"
proof -
  have real: "\<not> dry_run example_args"
    by (simp add: example_args_def)
  have vals: "p_loaded saved_prepared = saved_state" "optional_paths example_args = []"
    "trace saved_world = []" "history saved_world = []"
    by (simp_all add: saved_prepared_def optional_paths_def example_args_def saved_world_def)
  from state_written_in_place [OF prepare_saved start_flow_saved succeeded_started real, of False]
  show ?thesis
    using prepare_saved start_flow_saved succeeded_started real
    by (simp add: vals example_state_path overrides_saved)
qed

text \<open>
  The claim C6 fails on the run from \<open>saved_world\<close>: its file operations are one read,
  one open for writing of the state file itself and one dump; the state file is empty
  in the first of the two states the run leaves behind, and a command that loads it
  there gets a parse error. The write itself does not merge: writing a record with one
  field over the saved file leaves that one field.
\<close>

theorem state_write_not_atomic:
  "files saved_world ''/home/u/.cfde_client.json'' = Some (Json_text (JObj saved_state)) \<and>
   filter is_file_event (trace (snd (run example_env example_args saved_world))) =
     [Open_read ''/home/u/.cfde_client.json'', Open_write ''/home/u/.cfde_client.json'',
      Dump ''/home/u/.cfde_client.json'' (JObj saved_after)] \<and>
   map (\<lambda>fs. fs ''/home/u/.cfde_client.json'')
     (history (snd (run example_env example_args saved_world))) =
     [Some Truncated, Some (Json_text (JObj saved_after))] \<and>
   fst (load_state False ''/home/u/.cfde_client.json''
          (saved_world\<lparr>files := hd (history (snd (run example_env example_args saved_world)))\<rparr>)) =
     Inl (JSONDecodeError ''/home/u/.cfde_client.json'') \<and>
   fst (load_state False ''/home/u/.cfde_client.json''
          (write_state ''/home/u/.cfde_client.json'' (JObj [(''flow_id'', JStr ''F9'')]) saved_world)) =
     Inr (JObj [(''flow_id'', JStr ''F9'')])"
proof -
  from run_saved_history
  have "hd (history (snd (run example_env example_args saved_world))) ''/home/u/.cfde_client.json'' =
          Some Truncated"
    by (cases "history (snd (run example_env example_args saved_world))") auto
  then show ?thesis
    using run_saved_history
    by (simp add: run_saved(3) load_state_result) (simp add: saved_world_def)
qed

section \<open>The service instance across commands\<close>

lemma query_status_calls:
  "Call_CfdeClient (status_kwargs si) \<in> set (trace (snd (query_status env fid fiid (Some si) w)))"
  by (simp add: query_status_def split: option.splits sum.splits)

lemma present_trace:
  "ev \<in> set (trace (snd r)) \<Longrightarrow> ev \<in> set (trace (snd (present raw fid r)))"
  by (cases r) (auto simp: present_def split: sum.splits)

text \<open>
  C10. Every run in which lines 44-99 complete, the submission returns a success and
  which is not a dry run returns normally and leaves a state file whose
  \<^verbatim>\<open>service_instance\<close> is the option of this invocation, \<^verbatim>\<open>None\<close> (null) when it was
  not given, whatever the file held before. A later \<^verbatim>\<open>status\<close> on the same state file
  that has to consult it, and finds both identifiers, binds \<^verbatim>\<open>service_instance\<close> to
  that value and constructs the client with it.
\<close>

theorem service_instance_overwritten:
  assumes "fst (prepare env a w) = Inr p"
    and "fst (start_flow env a p (snd (prepare env a w))) = Inr res"
    and "succeeded res m dest fid fiid"
    and "\<not> dry_run a"
    and "files w' = files (snd (run env a w))"
    and "state_path env' csf = state_path env (client_state_file a)"
    and "\<not> (truthy (opt_str given_fid) \<and> truthy (opt_str given_fiid))"
  shows "fst (run env a w) = None \<and>
         files (snd (run env a w)) (state_path env (client_state_file a)) =
           Some (Json_text (JObj (updated_state env a p dest fid fiid))) \<and>
         dict_get ''service_instance'' (updated_state env a p dest fid fiid) =
           opt_str (service_instance a) \<and>
         (truthy (fallback given_fid ''flow_id'' (updated_state env a p dest fid fiid)) \<and>
          truthy (fallback given_fiid ''flow_instance_id'' (updated_state env a p dest fid fiid)) \<longrightarrow>
            fst (resolve_flow env' given_fid given_fiid csf w') =
              Inr (Resolved (fallback given_fid ''flow_id'' (updated_state env a p dest fid fiid))
                     (fallback given_fiid ''flow_instance_id'' (updated_state env a p dest fid fiid))
                     (Some (opt_str (service_instance a)))) \<and>
            Call_CfdeClient (status_kwargs (opt_str (service_instance a)))
              \<in> set (trace (snd (status env' given_fid given_fiid raw csf w'))))"
proof -
  let ?st = "updated_state env a p dest fid fiid"
  note wr = success_writes[OF assms(1-4)]
  from prepare_result(1)[OF assms(1)] assms(6)
  have path: "p_state_file p = state_path env' csf" "p_state_file p = state_path env (client_state_file a)"
    by simp_all
  from wr(2) assms(5) path
  have stored: "files w' (state_path env' csf) = Some (Json_text (JObj ?st))"
    "files (snd (run env a w)) (state_path env (client_state_file a)) = Some (Json_text (JObj ?st))"
    by simp_all
  have si: "dict_get ''service_instance'' ?st = opt_str (service_instance a)"
    by (simp add: updated_state_def service_instance_flow_fields)
  have "fst (resolve_flow env' given_fid given_fiid csf w') =
          Inr (Resolved (fallback given_fid ''flow_id'' ?st) (fallback given_fiid ''flow_instance_id'' ?st)
                 (Some (opt_str (service_instance a)))) \<and>
        Call_CfdeClient (status_kwargs (opt_str (service_instance a)))
          \<in> set (trace (snd (status env' given_fid given_fiid raw csf w')))"
    if found: "truthy (fallback given_fid ''flow_id'' ?st)"
      "truthy (fallback given_fiid ''flow_instance_id'' ?st)"
  proof -
    have "resolve_flow env' given_fid given_fiid csf w' =
        (Inr (Resolved (fallback given_fid ''flow_id'' ?st) (fallback given_fiid ''flow_instance_id'' ?st)
                (Some (opt_str (service_instance a)))),
         log (Open_read (state_path env' csf)) w')"
      using assms(7) stored(1) found si
      by (auto simp: resolve_flow_def read_json_def Let_def fallback_def py_or_def split: if_splits)
    then show ?thesis
      by (simp add: status_def present_trace query_status_calls)
  qed
  with wr(1) stored(2) si show ?thesis by blast
qed

theorem service_instance_overwritten_witness:
  "fst (prepare example_env example_args saved_world) = Inr saved_prepared \<and>
   fst (start_flow example_env example_args saved_prepared
          (snd (prepare example_env example_args saved_world))) = Inr started \<and>
   succeeded started (JStr ''started'') ''/public/bag.zip'' (JStr ''F9'') (JStr ''I9'') \<and>
   \<not> dry_run example_args \<and>
   state_path example_env None = state_path example_env (client_state_file example_args) \<and>
   \<not> (truthy (opt_str None) \<and> truthy (opt_str None)) \<and>
   dict_get ''service_instance'' saved_state = JStr ''dev'' \<and>
   service_instance example_args = None \<and>
   fst (run example_env example_args saved_world) = None \<and>
   files (snd (run example_env example_args saved_world)) ''/home/u/.cfde_client.json'' =
     Some (Json_text (JObj saved_after)) \<and>
   dict_get ''service_instance'' saved_after = JNull \<and>
   fst (resolve_flow example_env None None None (snd (run example_env example_args saved_world))) =
     Inr (Resolved (JStr ''F9'') (JStr ''I9'') (Some JNull)) \<and>
   Call_CfdeClient (status_kwargs JNull)
     \<in> set (trace (snd (status example_env None None False None
                           (snd (run example_env example_args saved_world)))))"
proof -
  have real: "\<not> dry_run example_args"
    by (simp add: example_args_def)
  have path: "state_path example_env None = state_path example_env (client_state_file example_args)"
    by (simp add: example_state_path)
  have none: "\<not> (truthy (opt_str None) \<and> truthy (opt_str None))"
    by simp
  have vals: "dict_get ''service_instance'' saved_state = JStr ''dev''"
    "service_instance example_args = None"
    "dict_get ''service_instance'' saved_after = JNull"
    "fallback None ''flow_id'' saved_after = JStr ''F9''"
    "fallback None ''flow_instance_id'' saved_after = JStr ''I9''"
    by (simp_all add: saved_state_def saved_after_def example_args_def dict_get_def fallback_def)
  from service_instance_overwritten
         [OF prepare_saved start_flow_saved succeeded_started real refl path none, of False]
  show ?thesis
    using prepare_saved start_flow_saved succeeded_started real path vals
    by (simp add: updated_saved example_state_path)
qed

end
